theory Spec2Isabelle
  imports Complex_Main "HOL-Library.AList"
begin

section \<open>Constants of the aggregator and of the alert service\<close>

text \<open>
  \<^verbatim>\<open>CACHE_TTL\<close> is the cool-down of \<^verbatim>\<open>alert.service.ts\<close>; the other four are the
  constants at the top of \<^verbatim>\<open>aggregator.service.ts\<close>. Times are milliseconds, as returned
  by \<^verbatim>\<open>Date.now()\<close>, and are modelled as integers; prices are JavaScript numbers and
  are modelled as reals (only comparisons of prices are used below, which are exact on
  finite floats; \<^verbatim>\<open>NaN\<close> is outside the model).
\<close>

definition CACHE_TTL :: int where
  "CACHE_TTL = 60000"

definition ALERT_THRESHOLD :: real where
  "ALERT_THRESHOLD = 1 / 2"

definition STALE_THRESHOLD :: int where
  "STALE_THRESHOLD = 30000"

definition DB_SAVE_THROTTLE :: int where
  "DB_SAVE_THROTTLE = 5000"

definition BROADCAST_THROTTLE :: int where
  "BROADCAST_THROTTLE = 1000"

section \<open>Data model\<close>

record ExchangePrice =
  bid :: real
  ask :: real
  timestamp :: int
  source :: string

record AggregatedPair =
  symbol :: string
  vest :: ExchangePrice
  lighter :: ExchangePrice
  paradex :: ExchangePrice
  extended :: ExchangePrice
  bestBid :: real
  bestAsk :: real
  bestBidEx :: "string option"
  bestAskEx :: "string option"
  realSpread :: real
  potentialProfit :: "real option"

text \<open>
  The event payload of a connector (\<^verbatim>\<open>TimestampedPrice\<close>); its fields carry the prefix
  \<open>q_\<close> because a record field name is a global constant.
\<close>

record TimestampedPrice =
  q_symbol :: string
  q_bid :: real
  q_ask :: real
  q_timestamp :: int
  q_source :: string

text \<open>
  \<^verbatim>\<open>handleUpdate\<close> is private to the module and is called with exactly four keys of
  \<^verbatim>\<open>AggregatedPair\<close>: \<^verbatim>\<open>'paradex'\<close>, \<^verbatim>\<open>'vest'\<close>, \<^verbatim>\<open>'lighter'\<close>, \<^verbatim>\<open>'extended'\<close>.
\<close>

datatype exchangeName = Vest | Lighter | Paradex | Extended

text \<open>
  \<^verbatim>\<open>PRICE_CACHE\<close> is a JavaScript object used as a dictionary with string keys. It is an
  association list in insertion order, so that \<^verbatim>\<open>Object.values\<close> is the list of second
  components; \<^verbatim>\<open>PRICE_CACHE[k]\<close> is \<open>map_of\<close> and \<^verbatim>\<open>PRICE_CACHE[k] = v\<close> is
  \<open>AList.update\<close>, which overwrites in place or appends.
\<close>

type_synonym cache = "(string \<times> AggregatedPair) list"

definition createPair :: "string \<Rightarrow> AggregatedPair" where
  "createPair s =
     \<lparr> symbol = s,
       vest = \<lparr> bid = 0, ask = 0, timestamp = 0, source = ''none'' \<rparr>,
       lighter = \<lparr> bid = 0, ask = 0, timestamp = 0, source = ''none'' \<rparr>,
       paradex = \<lparr> bid = 0, ask = 0, timestamp = 0, source = ''none'' \<rparr>,
       extended = \<lparr> bid = 0, ask = 0, timestamp = 0, source = ''none'' \<rparr>,
       bestBid = 0,
       bestAsk = 0,
       bestBidEx = None,
       bestAskEx = None,
       realSpread = 0,
       potentialProfit = None \<rparr>"

text \<open>
  \<^verbatim>\<open>ensurePair\<close>: \<^verbatim>\<open>null\<close> for a symbol outside \<^verbatim>\<open>ALLOWED_SYMBOLS\<close>, otherwise the
  cached pair, created first when absent. The allow-list is imported from the configuration
  module, which is not part of the sources at hand, and is a parameter throughout.
\<close>

definition ensurePair :: "string list \<Rightarrow> string \<Rightarrow> cache \<Rightarrow> cache \<times> AggregatedPair option" where
  "ensurePair ALLOWED_SYMBOLS s c =
     (if s \<notin> set ALLOWED_SYMBOLS then (c, None)
      else case map_of c s of
             None \<Rightarrow> (AList.update s (createPair s) c, Some (createPair s))
           | Some p \<Rightarrow> (c, Some p))"

definition isFresh :: "int \<Rightarrow> int \<Rightarrow> bool" where
  "isFresh now ts \<longleftrightarrow> ts > 0 \<and> now - ts \<le> STALE_THRESHOLD"

definition getPriceCache :: "string list \<Rightarrow> cache \<Rightarrow> cache" where
  "getPriceCache ALLOWED_SYMBOLS c =
     fold (\<lambda>s filtered. case map_of c s of
                            None \<Rightarrow> filtered
                          | Some p \<Rightarrow> AList.update s p filtered)
          ALLOWED_SYMBOLS []"

text \<open>The per-venue slot \<^verbatim>\<open>pair[exchangeName]\<close>, read and overwritten.\<close>

fun venue_slot :: "exchangeName \<Rightarrow> AggregatedPair \<Rightarrow> ExchangePrice" where
  "venue_slot Vest p = vest p"
| "venue_slot Lighter p = lighter p"
| "venue_slot Paradex p = paradex p"
| "venue_slot Extended p = extended p"

fun set_venue_slot :: "exchangeName \<Rightarrow> ExchangePrice \<Rightarrow> AggregatedPair \<Rightarrow> AggregatedPair" where
  "set_venue_slot Vest q p = p\<lparr> vest := q \<rparr>"
| "set_venue_slot Lighter q p = p\<lparr> lighter := q \<rparr>"
| "set_venue_slot Paradex q p = p\<lparr> paradex := q \<rparr>"
| "set_venue_slot Extended q p = p\<lparr> extended := q \<rparr>"

text \<open>
  The four assignments of \<^verbatim>\<open>handleUpdate\<close> to \<^verbatim>\<open>target\<close>: every field of the slot is
  overwritten by the field of the incoming event, whatever the slot held.
\<close>

definition assign_target :: "TimestampedPrice \<Rightarrow> ExchangePrice \<Rightarrow> ExchangePrice" where
  "assign_target d target =
     target\<lparr> bid := q_bid d, ask := q_ask d, timestamp := q_timestamp d, source := q_source d \<rparr>"

section \<open>The spread engine\<close>

text \<open>
  Modelled from the spec: \<^verbatim>\<open>calculateSpreads\<close> of \<^verbatim>\<open>spread.service\<close>, which the
  aggregator imports and whose source is missing. The spec, section 4.3: let F be the
  quotes that pass the freshness filter and have bid > 0 and ask > 0; if F is empty,
  \<^verbatim>\<open>bestBid\<close> and \<^verbatim>\<open>bestAsk\<close> are cleared to no-signal; otherwise \<^verbatim>\<open>bestBid\<close> is the
  maximal bid over F and \<^verbatim>\<open>bestAsk\<close> the minimal ask, ties broken by a fixed venue order,
  and the spread is \<^verbatim>\<open>(bestBid - bestAsk) / bestAsk * 100\<close>. The call site passes the filter
  as a function of the venue name and of the slot and says that the cache is modified in
  place. \<^verbatim>\<open>bestBid\<close> and \<^verbatim>\<open>bestAsk\<close> are declared \<^verbatim>\<open>number\<close>, \<^verbatim>\<open>createPair\<close>
  initialises them to 0 and the aggregator tests them with \<^verbatim>\<open>> 0\<close>, so their no-signal
  value is 0. The venue names are the upper-case names the dashboard compares
  \<^verbatim>\<open>bestBidEx\<close> with.
\<close>

definition venue_quotes :: "AggregatedPair \<Rightarrow> (string \<times> ExchangePrice) list" where
  "venue_quotes p =
     [(''VEST'', vest p), (''LIGHTER'', lighter p), (''PARADEX'', paradex p),
      (''EXTENDED'', extended p)]"

text \<open>
  Modelled from the spec: the set F, the quotes that pass the filter and have a positive
  bid and a positive ask, in venue order.
\<close>

definition contributing ::
  "(string \<Rightarrow> ExchangePrice \<Rightarrow> bool) \<Rightarrow> AggregatedPair \<Rightarrow> (string \<times> ExchangePrice) list" where
  "contributing flt p =
     filter (\<lambda>(ex, q). flt ex q \<and> bid q > 0 \<and> ask q > 0) (venue_quotes p)"

text \<open>
  Modelled from the spec: the quote with the greatest bid, the earlier venue winning a tie.
\<close>

fun pick_bid :: "(string \<times> ExchangePrice) list \<Rightarrow> (string \<times> ExchangePrice) option" where
  "pick_bid [] = None"
| "pick_bid (x # xs) =
     (case pick_bid xs of
        None \<Rightarrow> Some x
      | Some y \<Rightarrow> if bid (snd y) \<le> bid (snd x) then Some x else Some y)"

text \<open>
  Modelled from the spec: the quote with the least ask, the earlier venue winning a tie.
\<close>

fun pick_ask :: "(string \<times> ExchangePrice) list \<Rightarrow> (string \<times> ExchangePrice) option" where
  "pick_ask [] = None"
| "pick_ask (x # xs) =
     (case pick_ask xs of
        None \<Rightarrow> Some x
      | Some y \<Rightarrow> if ask (snd x) \<le> ask (snd y) then Some x else Some y)"

text \<open>
  Modelled from the spec: the explicit no-signal sentinel of the spread (section 3: the
  spread is defined only when both best prices exist, otherwise it is a sentinel that is
  never zero). The spec names no value; -999 is the value the dashboard falls back to
  (\<^verbatim>\<open>pair.realSpread ?? -999\<close>), and the metrics writer drops every spread that is not
  above -10.
\<close>

definition NO_SIGNAL_SPREAD :: real where
  "NO_SIGNAL_SPREAD = - 999"

text \<open>
  Modelled from the spec: the recomputation for one symbol. The venue slots are left as
  they are.
\<close>

definition recompute :: "(string \<Rightarrow> ExchangePrice \<Rightarrow> bool) \<Rightarrow> AggregatedPair \<Rightarrow> AggregatedPair" where
  "recompute flt p =
     (case (pick_bid (contributing flt p), pick_ask (contributing flt p)) of
        (Some b, Some a) \<Rightarrow>
          p\<lparr> bestBid := bid (snd b), bestAsk := ask (snd a),
             bestBidEx := Some (fst b), bestAskEx := Some (fst a),
             realSpread := (bid (snd b) - ask (snd a)) / ask (snd a) * 100 \<rparr>
      | _ \<Rightarrow>
          p\<lparr> bestBid := 0, bestAsk := 0, bestBidEx := None, bestAskEx := None,
             realSpread := NO_SIGNAL_SPREAD \<rparr>)"

text \<open>
  Modelled from the spec: \<^verbatim>\<open>calculateSpreads(PRICE_CACHE, filter)\<close> recomputes every pair of
  the cache in place.
\<close>

definition calculateSpreads :: "cache \<Rightarrow> (string \<Rightarrow> ExchangePrice \<Rightarrow> bool) \<Rightarrow> cache" where
  "calculateSpreads c flt = map (\<lambda>(k, p). (k, recompute flt p)) c"

section \<open>The alert service\<close>

text \<open>
  A bound parameter of the \<^verbatim>\<open>INSERT\<close> statement. \<^verbatim>\<open>bestAskEx\<close> and \<^verbatim>\<open>bestBidEx\<close> are
  optional strings; an absent one is bound as \<open>SqlNull\<close>.
\<close>

datatype sqlval = SqlInt int | SqlNum real | SqlText string | SqlNull

type_synonym alert_row = "(string \<times> sqlval) list"

definition sql_text :: "string option \<Rightarrow> sqlval" where
  "sql_text v = (case v of None \<Rightarrow> SqlNull | Some s \<Rightarrow> SqlText s)"

text \<open>The column list of the statement and the array passed to \<^verbatim>\<open>db.run\<close>, in order.\<close>

definition alert_columns :: "string list" where
  "alert_columns =
     [''timestamp'', ''symbol'', ''spread'', ''exchange_buy'', ''exchange_sell'',
      ''price_buy'', ''price_sell'']"

definition alert_params :: "int \<Rightarrow> AggregatedPair \<Rightarrow> sqlval list" where
  "alert_params now opportunity =
     [SqlInt now, SqlText (symbol opportunity), SqlNum (realSpread opportunity),
      sql_text (bestAskEx opportunity), sql_text (bestBidEx opportunity),
      SqlNum (bestAsk opportunity), SqlNum (bestBid opportunity)]"

definition alert_record :: "int \<Rightarrow> AggregatedPair \<Rightarrow> alert_row" where
  "alert_record now opportunity = zip alert_columns (alert_params now opportunity)"

text \<open>
  A \<^verbatim>\<open>db.run\<close> that has been issued and whose completion callback has not run yet: the
  callback closes over \<^verbatim>\<open>symbol\<close> and \<^verbatim>\<open>now\<close>.
\<close>

record db_request =
  rq_symbol :: string
  rq_now :: int
  rq_row :: alert_row

datatype db_result = DbError string | DbDone nat

text \<open>What the promise returned by \<^verbatim>\<open>saveAlert\<close> is settled with.\<close>

datatype settled = ResolvedNull | ResolvedId nat | Rejected string

text \<open>
  The state the alert service reads and writes: the module-level \<^verbatim>\<open>alertCache\<close>, the
  \<^verbatim>\<open>alerts\<close> table behind \<^verbatim>\<open>db\<close>, the requests in flight and the entries written with
  \<^verbatim>\<open>logger.error\<close>.
\<close>

record alert_store =
  alertCache :: "string \<rightharpoonup> int"
  alerts :: "alert_row list"
  inflight :: "db_request list"
  errorLog :: "string list"

text \<open>
  The deduplication test \<^verbatim>\<open>lastAlertTime && (now - lastAlertTime < CACHE_TTL)\<close>: a missing
  entry and the number 0 are both falsy.
\<close>

definition too_soon :: "alert_store \<Rightarrow> string \<Rightarrow> int \<Rightarrow> bool" where
  "too_soon st s now =
     (case alertCache st s of
        None \<Rightarrow> False
      | Some lastAlertTime \<Rightarrow> lastAlertTime \<noteq> 0 \<and> now - lastAlertTime < CACHE_TTL)"

text \<open>
  The synchronous part of \<^verbatim>\<open>saveAlert\<close>, the promise executor: either the promise is
  resolved with \<^verbatim>\<open>null\<close> at once, or \<^verbatim>\<open>db.run\<close> is issued and the promise stays pending
  (\<open>None\<close>).
\<close>

definition saveAlert :: "AggregatedPair \<Rightarrow> int \<Rightarrow> alert_store \<Rightarrow> alert_store \<times> settled option" where
  "saveAlert opportunity now st =
     (if too_soon st (symbol opportunity) now then (st, Some ResolvedNull)
      else (st\<lparr> inflight := inflight st @
                   [\<lparr> rq_symbol = symbol opportunity, rq_now = now,
                      rq_row = alert_record now opportunity \<rparr>] \<rparr>,
            None))"

text \<open>
  The completion callback of the \<open>i\<close>-th request in flight. On an error the entry is logged
  and the promise rejected, and nothing else is written; on success the row is in the
  table, \<^verbatim>\<open>alertCache\<close> is set to the \<^verbatim>\<open>now\<close> of the call and the promise is resolved with
  the row id. No request at \<open>i\<close>: nothing happens.
\<close>

definition db_callback :: "nat \<Rightarrow> db_result \<Rightarrow> alert_store \<Rightarrow> alert_store \<times> settled option" where
  "db_callback i res st =
     (if i < length (inflight st) then
        (let rq = inflight st ! i;
             rest = take i (inflight st) @ drop (Suc i) (inflight st)
         in case res of
              DbError err \<Rightarrow>
                (st\<lparr> inflight := rest, errorLog := errorLog st @ [''Error saving alert:''] \<rparr>,
                 Some (Rejected err))
            | DbDone lastID \<Rightarrow>
                (st\<lparr> inflight := rest, alerts := alerts st @ [rq_row rq],
                     alertCache := (alertCache st)(rq_symbol rq \<mapsto> rq_now rq) \<rparr>,
                 Some (ResolvedId lastID)))
      else (st, None))"

section \<open>The broadcast throttle\<close>

text \<open>
  \<open>wsBroadcaster\<close> tells whether a broadcaster is registered; \<open>sent\<close> is the list of its
  calls, each with the time of the call and the snapshot passed. \<open>timers\<close> holds the due
  times of the \<^verbatim>\<open>setTimeout\<close> callbacks that have not run yet.
\<close>

record throttle =
  wsBroadcaster :: bool
  lastBroadcastTime :: int
  broadcastPending :: bool
  timers :: "int list"
  sent :: "(int \<times> cache) list"

definition performBroadcast :: "string list \<Rightarrow> cache \<Rightarrow> int \<Rightarrow> throttle \<Rightarrow> throttle" where
  "performBroadcast ALLOWED_SYMBOLS c now t =
     (if wsBroadcaster t then
        (let dataToBroadcast = getPriceCache ALLOWED_SYMBOLS c
         in if length dataToBroadcast > 0
            then t\<lparr> sent := sent t @ [(now, dataToBroadcast)], lastBroadcastTime := now \<rparr>
            else t)
      else t)"

definition throttledBroadcast :: "string list \<Rightarrow> cache \<Rightarrow> int \<Rightarrow> throttle \<Rightarrow> throttle" where
  "throttledBroadcast ALLOWED_SYMBOLS c now t =
     (if broadcastPending t then t
      else (let timeSinceLast = now - lastBroadcastTime t
            in if timeSinceLast \<ge> BROADCAST_THROTTLE
               then performBroadcast ALLOWED_SYMBOLS c now t
               else t\<lparr> broadcastPending := True,
                       timers := timers t @ [now + (BROADCAST_THROTTLE - timeSinceLast)] \<rparr>))"

text \<open>The body of the \<^verbatim>\<open>setTimeout\<close> callback, run when the first timer fires.\<close>

definition timer_callback :: "string list \<Rightarrow> cache \<Rightarrow> int \<Rightarrow> throttle \<Rightarrow> throttle" where
  "timer_callback ALLOWED_SYMBOLS c now t =
     (performBroadcast ALLOWED_SYMBOLS c now (t\<lparr> timers := tl (timers t) \<rparr>))
       \<lparr> broadcastPending := False \<rparr>"

section \<open>The aggregator\<close>

text \<open>The argument of a \<^verbatim>\<open>saveSpread\<close> call: symbol, spread, best bid and ask and their venues.\<close>

type_synonym spread_metric = "string \<times> real \<times> real \<times> real \<times> string option \<times> string option"

record aggregator =
  PRICE_CACHE :: cache
  lastDbSave :: "string \<rightharpoonup> int"
  savedSpreads :: "spread_metric list"
  store :: alert_store
  thr :: throttle

text \<open>
  The body of the \<^verbatim>\<open>forEach\<close> over \<^verbatim>\<open>Object.values(PRICE_CACHE)\<close> in
  \<^verbatim>\<open>updateAndRecalculate\<close>. The promise of \<^verbatim>\<open>saveAlert\<close> is not awaited.
\<close>

definition persist_pair :: "int \<Rightarrow> AggregatedPair \<Rightarrow> aggregator \<Rightarrow> aggregator" where
  "persist_pair now pair a =
     (if bestBid pair > 0 \<and> bestAsk pair > 0 then
        (let lastSave = (case lastDbSave a (symbol pair) of None \<Rightarrow> 0 | Some v \<Rightarrow> v);
             a1 = (if now - lastSave \<ge> DB_SAVE_THROTTLE
                   then a\<lparr> savedSpreads := savedSpreads a @
                              [(symbol pair, realSpread pair, bestBid pair, bestAsk pair,
                                bestBidEx pair, bestAskEx pair)],
                           lastDbSave := (lastDbSave a)(symbol pair \<mapsto> now) \<rparr>
                   else a)
         in if realSpread pair \<ge> ALERT_THRESHOLD
            then a1\<lparr> store := fst (saveAlert pair now (store a1)) \<rparr>
            else a1)
      else a)"

text \<open>
  One instant \<open>now\<close> stands for all the \<^verbatim>\<open>Date.now()\<close> reads of one synchronous run of
  \<^verbatim>\<open>updateAndRecalculate\<close> (its own, those of \<^verbatim>\<open>isFresh\<close>, of \<^verbatim>\<open>saveAlert\<close> and of the
  throttle).
\<close>

definition updateAndRecalculate :: "string list \<Rightarrow> int \<Rightarrow> aggregator \<Rightarrow> aggregator" where
  "updateAndRecalculate ALLOWED_SYMBOLS now a =
     (let c = calculateSpreads (PRICE_CACHE a) (\<lambda>exchange data. isFresh now (timestamp data));
          a1 = fold (persist_pair now) (map snd c) (a\<lparr> PRICE_CACHE := c \<rparr>)
      in a1\<lparr> thr := throttledBroadcast ALLOWED_SYMBOLS c now (thr a1) \<rparr>)"

definition handleUpdate ::
  "string list \<Rightarrow> exchangeName \<Rightarrow> TimestampedPrice \<Rightarrow> int \<Rightarrow> aggregator \<Rightarrow> aggregator" where
  "handleUpdate ALLOWED_SYMBOLS exchangeName d now a =
     (case ensurePair ALLOWED_SYMBOLS (q_symbol d) (PRICE_CACHE a) of
        (c, None) \<Rightarrow> a
      | (c, Some pair) \<Rightarrow>
          updateAndRecalculate ALLOWED_SYMBOLS now
            (a\<lparr> PRICE_CACHE :=
                  AList.update (q_symbol d)
                    (set_venue_slot exchangeName
                       (assign_target d (venue_slot exchangeName pair)) pair) c \<rparr>))"

text \<open>
  \<^verbatim>\<open>startScheduler\<close>: the cache is emptied and seeded with one empty pair per allow-listed
  symbol. The other module-level variables keep their values; \<open>initial\<close> is the state of a
  freshly loaded process.
\<close>

definition startScheduler :: "string list \<Rightarrow> aggregator \<Rightarrow> aggregator" where
  "startScheduler ALLOWED_SYMBOLS a =
     a\<lparr> PRICE_CACHE := fold (\<lambda>s c. AList.update s (createPair s) c) ALLOWED_SYMBOLS [] \<rparr>"

definition setWebSocketBroadcaster :: "aggregator \<Rightarrow> aggregator" where
  "setWebSocketBroadcaster a = a\<lparr> thr := (thr a)\<lparr> wsBroadcaster := True \<rparr> \<rparr>"

definition initial :: aggregator where
  "initial =
     \<lparr> PRICE_CACHE = [],
       lastDbSave = Map.empty,
       savedSpreads = [],
       store = \<lparr> alertCache = Map.empty, alerts = [], inflight = [], errorLog = [] \<rparr>,
       thr = \<lparr> wsBroadcaster = False, lastBroadcastTime = 0, broadcastPending = False,
               timers = [], sent = [] \<rparr> \<rparr>"

text \<open>
  What can happen to a running aggregator: a connector emits an update, a \<^verbatim>\<open>db.run\<close>
  completes (the rejection is caught by \<^verbatim>\<open>updateAndRecalculate\<close>, which logs it), the
  first timer fires, a broadcaster is registered. Each event carries the time at which its
  handler runs.
\<close>

datatype event =
    Update exchangeName TimestampedPrice
  | DbCompletes nat db_result
  | TimerFires
  | Register

fun step :: "string list \<Rightarrow> aggregator \<Rightarrow> int \<times> event \<Rightarrow> aggregator" where
  "step A a (now, Update ex d) = handleUpdate A ex d now a"
| "step A a (now, DbCompletes i res) =
     (case db_callback i res (store a) of
        (st, Some (Rejected err)) \<Rightarrow>
          a\<lparr> store := st\<lparr> errorLog := errorLog st @ [''Failed to save alert''] \<rparr> \<rparr>
      | (st, _) \<Rightarrow> a\<lparr> store := st \<rparr>)"
| "step A a (now, TimerFires) =
     (case timers (thr a) of
        [] \<Rightarrow> a
      | due # _ \<Rightarrow> a\<lparr> thr := timer_callback A (PRICE_CACHE a) now (thr a) \<rparr>)"
| "step A a (now, Register) = setWebSocketBroadcaster a"

definition run :: "string list \<Rightarrow> aggregator \<Rightarrow> (int \<times> event) list \<Rightarrow> aggregator" where
  "run A a evs = foldl (step A) a evs"

text \<open>
  A schedule the JavaScript runtime can produce: a timer callback runs only when a timer is
  outstanding, and not before its due time.
\<close>

fun schedule_ok :: "string list \<Rightarrow> aggregator \<Rightarrow> (int \<times> event) list \<Rightarrow> bool" where
  "schedule_ok A a [] = True"
| "schedule_ok A a ((now, ev) # evs) =
     ((case ev of
         TimerFires \<Rightarrow> (case timers (thr a) of [] \<Rightarrow> False | due # _ \<Rightarrow> due \<le> now)
       | _ \<Rightarrow> True)
      \<and> schedule_ok A (step A a (now, ev)) evs)"

section \<open>The REST adapters: \<^verbatim>\<open>fetchMarkets\<close>\<close>

text \<open>
  The body of a response is whatever JSON the venue sent; \<^verbatim>\<open>undefined\<close> is the value of
  a missing property. A \<^verbatim>\<open>TypeError\<close> is raised by reading a property of \<^verbatim>\<open>null\<close> or
  \<^verbatim>\<open>undefined\<close> and by calling a method the value does not have; the request itself
  fails with a message (refused connection, timeout, error status). Strings are compared
  and searched bytewise, and \<^verbatim>\<open>toLowerCase\<close> is the one of ASCII.
\<close>

datatype json =
    JUndefined | JNull | JBool bool | JNum real | JStr string
  | JArr "json list" | JObj "(string \<times> json) list"

datatype exn = RequestError string | TypeError

datatype log_entry = LogError string exn | LogDebug string nat

record MarketData =
  md_symbol :: json
  md_bid :: real
  md_ask :: real

text \<open>Truthiness, \<^verbatim>\<open>a || b\<close>, and the property read \<^verbatim>\<open>v.k\<close>.\<close>

fun truthy :: "json \<Rightarrow> bool" where
  "truthy JUndefined = False"
| "truthy JNull = False"
| "truthy (JBool b) = b"
| "truthy (JNum n) = (n \<noteq> 0)"
| "truthy (JStr s) = (s \<noteq> [])"
| "truthy (JArr xs) = True"
| "truthy (JObj kvs) = True"

definition js_or :: "json \<Rightarrow> json \<Rightarrow> json" where
  "js_or a b = (if truthy a then a else b)"

fun get_member :: "json \<Rightarrow> string \<Rightarrow> exn + json" where
  "get_member JUndefined k = Inl TypeError"
| "get_member JNull k = Inl TypeError"
| "get_member (JObj kvs) k = Inr (case map_of (rev kvs) k of None \<Rightarrow> JUndefined | Some v \<Rightarrow> v)"
| "get_member v k = Inr JUndefined"

text \<open>
  \<^verbatim>\<open>s.includes(p)\<close> and \<^verbatim>\<open>s.split(sep)[0]\<close> on strings; the calls on an arbitrary
  value: an array has \<^verbatim>\<open>includes\<close> and no \<^verbatim>\<open>split\<close>, the other values have neither.
\<close>

fun starts_with :: "string \<Rightarrow> string \<Rightarrow> bool" where
  "starts_with s [] = True"
| "starts_with [] (p # ps) = False"
| "starts_with (c # cs) (p # ps) = (c = p \<and> starts_with cs ps)"

fun str_includes :: "string \<Rightarrow> string \<Rightarrow> bool" where
  "str_includes [] p = (p = [])"
| "str_includes (c # cs) p = (starts_with (c # cs) p \<or> str_includes cs p)"

fun split_first :: "string \<Rightarrow> string \<Rightarrow> string" where
  "split_first [] sep = []"
| "split_first (c # cs) sep = (if starts_with (c # cs) sep then [] else c # split_first cs sep)"

definition toLowerCase :: "string \<Rightarrow> string" where
  "toLowerCase s =
     map (\<lambda>c. case map_of (zip ''ABCDEFGHIJKLMNOPQRSTUVWXYZ'' ''abcdefghijklmnopqrstuvwxyz'') c of
                 None \<Rightarrow> c | Some l \<Rightarrow> l) s"

fun includes_call :: "json \<Rightarrow> string \<Rightarrow> exn + bool" where
  "includes_call (JStr s) p = Inr (str_includes s p)"
| "includes_call (JArr xs) p = Inr (JStr p \<in> set xs)"
| "includes_call v p = Inl TypeError"

fun split_first_call :: "json \<Rightarrow> string \<Rightarrow> exn + string" where
  "split_first_call (JStr s) sep = Inr (split_first s sep)"
| "split_first_call v sep = Inl TypeError"

text \<open>Sequencing of steps that may raise: the first exception ends the block.\<close>

fun then_do :: "exn + 'a \<Rightarrow> ('a \<Rightarrow> exn + 'b) \<Rightarrow> exn + 'b" where
  "then_do (Inl e) f = Inl e"
| "then_do (Inr v) f = f v"

text \<open>
  \<^verbatim>\<open>parseFloat\<close> and the \<^verbatim>\<open>parsePrice\<close> and \<^verbatim>\<open>isCrypto\<close> of the base class (which is
  not among the sources) are parameters; \<open>None\<close> stands for \<^verbatim>\<open>NaN\<close>, for which
  \<^verbatim>\<open>x > 0\<close> is false.
\<close>

definition positive :: "real option \<Rightarrow> bool" where
  "positive v = (case v of None \<Rightarrow> False | Some x \<Rightarrow> x > 0)"

text \<open>
  The callback of \<^verbatim>\<open>markets.forEach\<close> in \<^verbatim>\<open>ExtendedService.fetchMarkets\<close>: \<open>Inr None\<close>
  is an early \<^verbatim>\<open>return\<close>, \<open>Inr (Some r)\<close> a \<^verbatim>\<open>results.push(r)\<close>.
\<close>

definition extended_market ::
  "string list \<Rightarrow> (json \<Rightarrow> real option) \<Rightarrow> json \<Rightarrow> exn + MarketData option" where
  "extended_market ALLOWED_SYMBOLS parseFloat market =
     then_do (get_member market ''name'') (\<lambda>marketName.
       if \<not> truthy marketName then Inr None
       else then_do (includes_call marketName ''-'') (\<lambda>has_dash.
         if \<not> has_dash then Inr None
         else then_do (split_first_call marketName ''-'') (\<lambda>baseSymbol.
           if baseSymbol \<notin> set ALLOWED_SYMBOLS then Inr None
           else then_do (get_member market ''active'') (\<lambda>active.
             then_do (get_member market ''status'') (\<lambda>status.
               if active \<noteq> JBool True \<or> status \<noteq> JStr ''ACTIVE'' then Inr None
               else then_do (get_member market ''marketStats'') (\<lambda>stats.
                 if \<not> truthy stats then Inr None
                 else then_do (get_member stats ''bidPrice'') (\<lambda>bidPrice.
                   if \<not> truthy bidPrice then Inr None
                   else then_do (get_member stats ''askPrice'') (\<lambda>askPrice.
                     if \<not> truthy askPrice then Inr None
                     else (let bid = parseFloat (js_or bidPrice (JNum 0));
                               ask = parseFloat (js_or askPrice (JNum 0))
                           in if positive bid \<and> positive ask
                              then Inr (Some \<lparr> md_symbol = JStr baseSymbol,
                                               md_bid = the bid, md_ask = the ask \<rparr>)
                              else Inr None)))))))))"

text \<open>
  \<^verbatim>\<open>forEach\<close> with a callback that pushes to \<^verbatim>\<open>results\<close>: an exception leaves the loop,
  with what had been pushed so far.
\<close>

fun forEach_push ::
  "(json \<Rightarrow> exn + MarketData option) \<Rightarrow> json list \<Rightarrow> MarketData list
     \<Rightarrow> MarketData list \<times> exn option" where
  "forEach_push f [] results = (results, None)"
| "forEach_push f (m # ms) results =
     (case f m of
        Inl e \<Rightarrow> (results, Some e)
      | Inr None \<Rightarrow> forEach_push f ms results
      | Inr (Some r) \<Rightarrow> forEach_push f ms (results @ [r]))"

text \<open>\<^verbatim>\<open>status?.toLowerCase() === 'ok'\<close>.\<close>

fun status_ok :: "json \<Rightarrow> exn + bool" where
  "status_ok JUndefined = Inr False"
| "status_ok JNull = Inr False"
| "status_ok (JStr s) = Inr (toLowerCase s = ''ok'')"
| "status_ok v = Inl TypeError"

text \<open>
  The \<^verbatim>\<open>try\<close> block of \<^verbatim>\<open>ExtendedService.fetchMarkets\<close>, given the outcome of the
  request: what \<^verbatim>\<open>results\<close> holds when the block is left, and the exception that left
  it, if any. \<^verbatim>\<open>results\<close> is declared before the \<^verbatim>\<open>try\<close>.
\<close>

definition Extended_try ::
  "string list \<Rightarrow> (json \<Rightarrow> real option) \<Rightarrow> string + json \<Rightarrow> MarketData list \<times> exn option" where
  "Extended_try ALLOWED_SYMBOLS parseFloat response =
     (case response of
        Inl message \<Rightarrow> ([], Some (RequestError message))
      | Inr data \<Rightarrow>
          if \<not> truthy data then ([], None)
          else (case then_do (get_member data ''status'') status_ok of
                  Inl e \<Rightarrow> ([], Some e)
                | Inr ok \<Rightarrow>
                    if \<not> ok then ([], None)
                    else (case get_member data ''data'' of
                            Inr (JArr markets) \<Rightarrow>
                              forEach_push (extended_market ALLOWED_SYMBOLS parseFloat)
                                markets []
                          | _ \<Rightarrow> ([], None))))"

text \<open>
  \<^verbatim>\<open>ExtendedService.fetchMarkets\<close>: the \<^verbatim>\<open>catch\<close> logs the error, and \<^verbatim>\<open>results\<close> is
  returned after the \<^verbatim>\<open>try\<close> statement. The value is how the promise handed to the
  caller settles: \<open>Inr\<close> is fulfilment with the list returned, together with the log
  entries written; \<open>Inl\<close> would be rejection with an exception.
\<close>

definition Extended_fetchMarkets ::
  "string list \<Rightarrow> (json \<Rightarrow> real option) \<Rightarrow> string + json
     \<Rightarrow> exn + MarketData list \<times> log_entry list" where
  "Extended_fetchMarkets ALLOWED_SYMBOLS parseFloat response =
     (case Extended_try ALLOWED_SYMBOLS parseFloat response of
        (results, None) \<Rightarrow> Inr (results, [])
      | (results, Some error) \<Rightarrow> Inr (results, [LogError ''REST fetch failed'' error]))"

text \<open>The callback of \<^verbatim>\<open>markets.forEach\<close> in \<^verbatim>\<open>LighterService.fetchMarkets\<close>.\<close>

definition lighter_market ::
  "(json \<Rightarrow> bool) \<Rightarrow> (json \<Rightarrow> real option) \<Rightarrow> json \<Rightarrow> exn + MarketData option" where
  "lighter_market isCrypto parsePrice m =
     then_do (get_member m ''market_type'') (\<lambda>market_type.
       then_do (if market_type = JStr ''perp'' then get_member m ''status'' else Inr JUndefined) (\<lambda>status.
         if \<not> (market_type = JStr ''perp'' \<and> status = JStr ''active'') then Inr None
         else then_do (get_member m ''symbol'') (\<lambda>sym.
           then_do (includes_call sym ''--'') (\<lambda>has_sep.
             then_do (if has_sep then map_sum id JStr (split_first_call sym ''--'') else Inr sym)
               (\<lambda>symbol.
                 if \<not> isCrypto symbol then Inr None
                 else then_do (get_member m ''best_bid'') (\<lambda>best_bid.
                   then_do (get_member m ''last_trade_price'') (\<lambda>last_trade_price.
                     then_do (get_member m ''best_ask'') (\<lambda>best_ask.
                       (let bestBid = parsePrice (js_or best_bid last_trade_price);
                            bestAsk = parsePrice (js_or best_ask last_trade_price)
                        in if positive bestBid \<and> positive bestAsk
                           then Inr (Some \<lparr> md_symbol = symbol,
                                            md_bid = the bestBid, md_ask = the bestAsk \<rparr>)
                           else Inr None)))))))))"

text \<open>
  The \<^verbatim>\<open>try\<close> block of \<^verbatim>\<open>LighterService.fetchMarkets\<close>, which is the whole body:
  either it returns \<^verbatim>\<open>results\<close>, having written a debug entry, or an exception leaves
  it and \<^verbatim>\<open>results\<close>, local to the block, is lost.
\<close>

definition Lighter_try ::
  "(json \<Rightarrow> bool) \<Rightarrow> (json \<Rightarrow> real option) \<Rightarrow> string + json
     \<Rightarrow> exn + MarketData list \<times> log_entry list" where
  "Lighter_try isCrypto parsePrice response =
     (case response of
        Inl message \<Rightarrow> Inl (RequestError message)
      | Inr data \<Rightarrow>
          then_do (get_member data ''order_book_details'') (\<lambda>details.
            case js_or details (JArr []) of
              JArr markets \<Rightarrow>
                (case forEach_push (lighter_market isCrypto parsePrice) markets [] of
                   (results, Some e) \<Rightarrow> Inl e
                 | (results, None) \<Rightarrow>
                     Inr (results, [LogDebug ''Returning pairs with real bid/ask''
                                      (length results)]))
            | _ \<Rightarrow> Inl TypeError))"

text \<open>
  \<^verbatim>\<open>LighterService.fetchMarkets\<close>: the \<^verbatim>\<open>catch\<close> logs the error and returns a new
  empty list.
\<close>

definition Lighter_fetchMarkets ::
  "(json \<Rightarrow> bool) \<Rightarrow> (json \<Rightarrow> real option) \<Rightarrow> string + json
     \<Rightarrow> exn + MarketData list \<times> log_entry list" where
  "Lighter_fetchMarkets isCrypto parsePrice response =
     (case Lighter_try isCrypto parsePrice response of
        Inr returned \<Rightarrow> Inr returned
      | Inl error \<Rightarrow> Inr ([], [LogError ''Error fetching markets'' error]))"

section \<open>Notions used in the statements\<close>

text \<open>
  The pair \<^verbatim>\<open>handleUpdate\<close> works on: the cached one, or the one \<^verbatim>\<open>ensurePair\<close> creates.
\<close>

definition stored :: "cache \<Rightarrow> string \<Rightarrow> AggregatedPair" where
  "stored c s = (case map_of c s of None \<Rightarrow> createPair s | Some p \<Rightarrow> p)"

text \<open>
  The quotes of a pair that are fresh at time \<open>now\<close> and valid: the set F of the spec.
\<close>

definition fresh_valid :: "int \<Rightarrow> AggregatedPair \<Rightarrow> ExchangePrice set" where
  "fresh_valid now p =
     {q \<in> {vest p, lighter p, paradex p, extended p}.
        isFresh now (timestamp q) \<and> bid q > 0 \<and> ask q > 0}"

text \<open>The request \<^verbatim>\<open>saveAlert\<close> puts in flight for a pair at time \<open>now\<close>.\<close>

definition request :: "int \<Rightarrow> AggregatedPair \<Rightarrow> db_request" where
  "request now p = \<lparr> rq_symbol = symbol p, rq_now = now, rq_row = alert_record now p \<rparr>"

text \<open>
  The pairs for which a recomputation at \<open>now\<close> issues a write: the two guards of
  \<^verbatim>\<open>updateAndRecalculate\<close> and the deduplication test of \<^verbatim>\<open>saveAlert\<close>.
\<close>

definition qualifies :: "alert_store \<Rightarrow> int \<Rightarrow> AggregatedPair \<Rightarrow> bool" where
  "qualifies st now p \<longleftrightarrow>
     bestBid p > 0 \<and> bestAsk p > 0 \<and> realSpread p \<ge> ALERT_THRESHOLD
     \<and> \<not> too_soon st (symbol p) now"

text \<open>
  The store after \<^verbatim>\<open>saveAlert\<close> was called at \<open>now\<close> and the \<^verbatim>\<open>db.run\<close> it issued has
  completed, with success or with an error, before anything else happened.
\<close>

definition saved_then :: "AggregatedPair \<Rightarrow> int \<Rightarrow> nat \<Rightarrow> alert_store \<Rightarrow> alert_store" where
  "saved_then opp now lastID st =
     fst (db_callback (length (inflight st)) (DbDone lastID) (fst (saveAlert opp now st)))"

definition failed_then :: "AggregatedPair \<Rightarrow> int \<Rightarrow> string \<Rightarrow> alert_store \<Rightarrow> alert_store" where
  "failed_then opp now err st =
     fst (db_callback (length (inflight st)) (DbError err) (fst (saveAlert opp now st)))"

text \<open>Broadcast times of which each is at least one throttle window after the one before.\<close>

fun spaced :: "int list \<Rightarrow> bool" where
  "spaced [] = True"
| "spaced [x] = True"
| "spaced (x # y # ys) = (BROADCAST_THROTTLE \<le> y - x \<and> spaced (y # ys))"

text \<open>
  What holds of the throttle between any two handlers: the broadcasts made are spaced, the
  last of them is at \<^verbatim>\<open>lastBroadcastTime\<close>, and a timer is outstanding exactly while
  \<^verbatim>\<open>broadcastPending\<close> is set, due one window after the last broadcast.
\<close>

definition thr_inv :: "throttle \<Rightarrow> bool" where
  "thr_inv t \<longleftrightarrow>
     spaced (map fst (sent t))
     \<and> (sent t \<noteq> [] \<longrightarrow> fst (last (sent t)) = lastBroadcastTime t)
     \<and> timers t = (if broadcastPending t then [lastBroadcastTime t + BROADCAST_THROTTLE] else [])"

text \<open>The aggregator of a fresh process after \<^verbatim>\<open>startScheduler\<close> and the events \<open>evs\<close>.\<close>

definition started :: "string list \<Rightarrow> (int \<times> event) list \<Rightarrow> aggregator" where
  "started A evs = run A (startScheduler A initial) evs"

text \<open>A response of the Extended venue with status OK and the given markets.\<close>

definition ok_body :: "json list \<Rightarrow> json" where
  "ok_body markets = JObj [(''status'', JStr ''OK''), (''data'', JArr markets)]"

section \<open>Concrete inputs\<close>

definition quote_new :: TimestampedPrice where
  "quote_new =
     \<lparr> q_symbol = ''BTC'', q_bid = 100, q_ask = 101, q_timestamp = 2000, q_source = ''ws'' \<rparr>"

definition quote_old :: TimestampedPrice where
  "quote_old =
     \<lparr> q_symbol = ''BTC'', q_bid = 90, q_ask = 91, q_timestamp = 1000, q_source = ''rest'' \<rparr>"

definition quote_doge :: TimestampedPrice where
  "quote_doge =
     \<lparr> q_symbol = ''DOGE'', q_bid = 1, q_ask = 2, q_timestamp = 3000, q_source = ''ws'' \<rparr>"

text \<open>The first scenario of the spec: venue A quotes 100 / 100.2, venue C quotes 102 / 102.5.\<close>

definition quote_a :: TimestampedPrice where
  "quote_a =
     \<lparr> q_symbol = ''BTC'', q_bid = 100, q_ask = 1002 / 10, q_timestamp = 1000, q_source = ''ws'' \<rparr>"

definition quote_c :: TimestampedPrice where
  "quote_c =
     \<lparr> q_symbol = ''BTC'', q_bid = 102, q_ask = 1025 / 10, q_timestamp = 1500, q_source = ''ws'' \<rparr>"

definition scenario_pair :: AggregatedPair where
  "scenario_pair =
     \<lparr> symbol = ''BTC'',
       vest = \<lparr> bid = 100, ask = 1002 / 10, timestamp = 1000, source = ''ws'' \<rparr>,
       lighter = \<lparr> bid = 0, ask = 0, timestamp = 0, source = ''none'' \<rparr>,
       paradex = \<lparr> bid = 102, ask = 1025 / 10, timestamp = 1500, source = ''ws'' \<rparr>,
       extended = \<lparr> bid = 0, ask = 0, timestamp = 0, source = ''none'' \<rparr>,
       bestBid = 102,
       bestAsk = 1002 / 10,
       bestBidEx = Some ''PARADEX'',
       bestAskEx = Some ''VEST'',
       realSpread = 300 / 167,
       potentialProfit = None \<rparr>"

text \<open>A crossed quote of one venue: its bid is 1% above its ask.\<close>

definition quote_crossed :: TimestampedPrice where
  "quote_crossed =
     \<lparr> q_symbol = ''BTC'', q_bid = 101, q_ask = 100, q_timestamp = 1000, q_source = ''ws'' \<rparr>"

definition crossed_pair :: AggregatedPair where
  "crossed_pair =
     \<lparr> symbol = ''BTC'',
       vest = \<lparr> bid = 101, ask = 100, timestamp = 1000, source = ''ws'' \<rparr>,
       lighter = \<lparr> bid = 0, ask = 0, timestamp = 0, source = ''none'' \<rparr>,
       paradex = \<lparr> bid = 0, ask = 0, timestamp = 0, source = ''none'' \<rparr>,
       extended = \<lparr> bid = 0, ask = 0, timestamp = 0, source = ''none'' \<rparr>,
       bestBid = 101,
       bestAsk = 100,
       bestBidEx = Some ''VEST'',
       bestAskEx = Some ''VEST'',
       realSpread = 1,
       potentialProfit = None \<rparr>"

text \<open>
  A broadcaster is registered, an update is broadcast at once at 5000, the update at 5400
  schedules the trailing broadcast for 6000.
\<close>

definition burst :: "(int \<times> event) list" where
  "burst = [(5000, Register), (5000, Update Vest quote_new), (5400, Update Vest quote_new)]"

text \<open>The update at 6500 arrives before the timer due at 6000 has fired.\<close>

definition burst_late :: "(int \<times> event) list" where
  "burst_late = burst @ [(6500, Update Vest quote_new)]"

text \<open>The pair of the scenario while venue A alone has quoted.\<close>

definition vest_only_pair :: AggregatedPair where
  "vest_only_pair =
     \<lparr> symbol = ''BTC'',
       vest = \<lparr> bid = 100, ask = 1002 / 10, timestamp = 1000, source = ''ws'' \<rparr>,
       lighter = \<lparr> bid = 0, ask = 0, timestamp = 0, source = ''none'' \<rparr>,
       paradex = \<lparr> bid = 0, ask = 0, timestamp = 0, source = ''none'' \<rparr>,
       extended = \<lparr> bid = 0, ask = 0, timestamp = 0, source = ''none'' \<rparr>,
       bestBid = 100,
       bestAsk = 1002 / 10,
       bestBidEx = Some ''VEST'',
       bestAskEx = Some ''VEST'',
       realSpread = - (100 / 501),
       potentialProfit = None \<rparr>"

text \<open>
  The scenario, then the quote of venue C once more one millisecond later, and only then
  the completions of the two writes, both with success.
\<close>

definition overlap :: "(int \<times> event) list" where
  "overlap =
     [(1000, Update Vest quote_a), (1500, Update Paradex quote_c),
      (1501, Update Paradex quote_c),
      (1505, DbCompletes 0 (DbDone 1)), (1506, DbCompletes 0 (DbDone 2))]"


text \<open>A cache that holds a symbol outside the allow-list BTC, ETH.\<close>

definition cache_with_stranger :: cache where
  "cache_with_stranger = [(''DOGE'', crossed_pair), (''BTC'', scenario_pair)]"

text \<open>Sample values of the parameters of the adapters, and sample records.\<close>

definition parse_sample :: "json \<Rightarrow> real option" where
  "parse_sample v =
     (case v of
        JNum x \<Rightarrow> Some x
      | JStr s \<Rightarrow> (if s = ''100.5'' then Some (201 / 2) else if s = ''100'' then Some 100
                    else None)
      | _ \<Rightarrow> None)"

definition any_symbol :: "json \<Rightarrow> bool" where
  "any_symbol v = True"

definition extended_record :: json where
  "extended_record =
     JObj [(''name'', JStr ''BTC-USD''), (''active'', JBool True), (''status'', JStr ''ACTIVE''),
           (''marketStats'', JObj [(''bidPrice'', JStr ''100''), (''askPrice'', JStr ''100.5'')])]"

definition lighter_record :: json where
  "lighter_record =
     JObj [(''market_type'', JStr ''perp''), (''status'', JStr ''active''),
           (''symbol'', JStr ''BTC''), (''best_bid'', JStr ''100''), (''best_ask'', JStr ''100.5'')]"

definition lighter_record_without_symbol :: json where
  "lighter_record_without_symbol =
     JObj [(''market_type'', JStr ''perp''), (''status'', JStr ''active''),
           (''best_bid'', JStr ''100''), (''best_ask'', JStr ''100.5'')]"

section \<open>Properties of the price cache\<close>

lemma keys_seed:
  "fst ` set (fold (\<lambda>s c. AList.update s (createPair s) c) A c0) = set A \<union> fst ` set c0"
  by (induction A arbitrary: c0) (auto simp: dom_update)

lemma keys_calculateSpreads [simp]: "map fst (calculateSpreads c flt) = map fst c"
  by (simp add: calculateSpreads_def case_prod_unfold)

lemma map_of_calculateSpreads:
  "map_of (calculateSpreads c flt) k = map_option (recompute flt) (map_of c k)"
  by (induction c) (auto simp: calculateSpreads_def)

lemma PRICE_CACHE_persist_pair [simp]: "PRICE_CACHE (persist_pair now p a) = PRICE_CACHE a"
  by (simp add: persist_pair_def Let_def)

lemma PRICE_CACHE_fold_persist [simp]:
  "PRICE_CACHE (fold (persist_pair now) ps a) = PRICE_CACHE a"
  by (induction ps arbitrary: a) simp_all

lemma PRICE_CACHE_updateAndRecalculate:
  "PRICE_CACHE (updateAndRecalculate A now a) =
     calculateSpreads (PRICE_CACHE a) (\<lambda>exchange data. isFresh now (timestamp data))"
  by (simp add: updateAndRecalculate_def Let_def)

lemma PRICE_CACHE_handleUpdate:
  "PRICE_CACHE (handleUpdate A ex d now a) =
     (if q_symbol d \<in> set A then
        calculateSpreads
          (AList.update (q_symbol d)
             (set_venue_slot ex
                (assign_target d (venue_slot ex (stored (PRICE_CACHE a) (q_symbol d))))
                (stored (PRICE_CACHE a) (q_symbol d)))
             (PRICE_CACHE a))
          (\<lambda>exchange data. isFresh now (timestamp data))
      else PRICE_CACHE a)"
  by (simp add: handleUpdate_def ensurePair_def PRICE_CACHE_updateAndRecalculate stored_def
           split: option.splits)

lemma keys_handleUpdate:
  "fst ` set (PRICE_CACHE (handleUpdate A ex d now a)) =
     (if q_symbol d \<in> set A then insert (q_symbol d) (fst ` set (PRICE_CACHE a))
      else fst ` set (PRICE_CACHE a))"
proof -
  have k: "fst ` set (calculateSpreads c flt) = fst ` set c" for c flt
    using keys_calculateSpreads [of c flt] by (metis set_map)
  show ?thesis
    by (simp add: PRICE_CACHE_handleUpdate k dom_update)
qed

lemma PRICE_CACHE_step_other:
  "\<forall>ex d. ev \<noteq> Update ex d \<Longrightarrow> PRICE_CACHE (step A a (now, ev)) = PRICE_CACHE a"
  by (cases ev)
     (simp_all add: setWebSocketBroadcaster_def
        split: prod.splits option.splits settled.splits list.splits)

lemma keys_step:
  assumes "fst ` set (PRICE_CACHE a) = set A"
  shows "fst ` set (PRICE_CACHE (step A a e)) = set A"
proof (cases e)
  case (Pair now ev)
  show ?thesis
  proof (cases "\<exists>ex d. ev = Update ex d")
    case True
    then obtain ex d where "ev = Update ex d" by blast
    with Pair assms show ?thesis by (simp add: keys_handleUpdate insert_absorb)
  next
    case False
    with Pair assms show ?thesis by (simp add: PRICE_CACHE_step_other)
  qed
qed

lemma keys_run:
  "fst ` set (PRICE_CACHE a) = set A \<Longrightarrow> fst ` set (PRICE_CACHE (run A a evs)) = set A"
  unfolding run_def
  by (induction evs arbitrary: a) (simp_all add: keys_step)

lemma keys_getPriceCache_aux:
  "fst ` set (fold (\<lambda>s filtered. case map_of c s of None \<Rightarrow> filtered
                                   | Some p \<Rightarrow> AList.update s p filtered) A f0)
     = (set A \<inter> fst ` set c) \<union> fst ` set f0"
proof (induction A arbitrary: f0)
  case Nil
  then show ?case by simp
next
  case (Cons s A)
  show ?case
  proof (cases "map_of c s")
    case None
    then have "s \<notin> fst ` set c" by (simp add: map_of_eq_None_iff)
    with None Cons show ?thesis by auto
  next
    case (Some p)
    then have "s \<in> fst ` set c" by (metis map_of_eq_None_iff option.distinct(1))
    with Some Cons show ?thesis by (auto simp: dom_update)
  qed
qed

lemma keys_getPriceCache: "fst ` set (getPriceCache A c) = set A \<inter> fst ` set c"
  by (simp add: getPriceCache_def keys_getPriceCache_aux)

lemma map_of_getPriceCache_aux:
  "map_of (fold (\<lambda>s filtered. case map_of c s of None \<Rightarrow> filtered
                                   | Some p \<Rightarrow> AList.update s p filtered) A f0) s
     = (if s \<in> set A then (case map_of c s of None \<Rightarrow> map_of f0 s | Some p \<Rightarrow> Some p)
        else map_of f0 s)"
  by (induction A arbitrary: f0) (auto simp: update_conv' split: option.splits)

lemma map_of_getPriceCache:
  "map_of (getPriceCache A c) s = (if s \<in> set A then map_of c s else None)"
  by (simp add: getPriceCache_def map_of_getPriceCache_aux split: option.splits)

text \<open>
  C9. From \<^verbatim>\<open>startScheduler\<close> on, whatever events follow, the symbols of the price cache
  are exactly the allow-list, and so are the symbols of the snapshot \<^verbatim>\<open>getPriceCache\<close>
  returns; an update for a symbol outside the allow-list changes nothing at all. And the
  snapshot is filtered: of whatever cache it is given, \<^verbatim>\<open>getPriceCache\<close> returns the
  entries of the allow-listed symbols, unchanged, and no other.
\<close>

theorem cache_symbols_equal_allow_list:
  "fst ` set (PRICE_CACHE (run A (startScheduler A a) evs)) = set A
   \<and> fst ` set (getPriceCache A (PRICE_CACHE (run A (startScheduler A a) evs))) = set A
   \<and> (q_symbol d \<notin> set A \<longrightarrow>
        handleUpdate A ex d now (run A (startScheduler A a) evs)
          = run A (startScheduler A a) evs)
   \<and> fst ` set (getPriceCache A c) = set A \<inter> fst ` set c
   \<and> map_of (getPriceCache A c) s = (if s \<in> set A then map_of c s else None)"
proof -
  have s: "fst ` set (PRICE_CACHE (startScheduler A a)) = set A"
    by (simp add: startScheduler_def keys_seed)
  have r: "fst ` set (PRICE_CACHE (run A (startScheduler A a) evs)) = set A"
    by (rule keys_run [OF s])
  show ?thesis
    by (simp add: r keys_getPriceCache map_of_getPriceCache handleUpdate_def ensurePair_def)
qed

theorem cache_symbols_equal_allow_list_witness:
  "fst ` set (PRICE_CACHE (run [''BTC'', ''ETH''] (startScheduler [''BTC'', ''ETH''] initial)
                 [(2000, Update Vest quote_new), (3000, Update Lighter quote_doge)]))
     = {''BTC'', ''ETH''}
   \<and> q_symbol quote_doge \<notin> set [''BTC'', ''ETH'']
   \<and> handleUpdate [''BTC'', ''ETH''] Paradex quote_doge 3001
        (run [''BTC'', ''ETH''] (startScheduler [''BTC'', ''ETH''] initial)
           [(2000, Update Vest quote_new), (3000, Update Lighter quote_doge)])
       = run [''BTC'', ''ETH''] (startScheduler [''BTC'', ''ETH''] initial)
           [(2000, Update Vest quote_new), (3000, Update Lighter quote_doge)]
   \<and> map_of (getPriceCache [''BTC'', ''ETH''] cache_with_stranger) ''DOGE'' = None
   \<and> map_of cache_with_stranger ''DOGE'' = Some crossed_pair"
proof -
  have h: "q_symbol quote_doge \<notin> set [''BTC'', ''ETH'']"
    by (simp add: quote_doge_def)
  have m: "map_of cache_with_stranger ''DOGE'' = Some crossed_pair"
    by (simp add: cache_with_stranger_def)
  show ?thesis
    using h m cache_symbols_equal_allow_list
            [where A = "[''BTC'', ''ETH'']" and a = initial
               and evs = "[(2000, Update Vest quote_new), (3000, Update Lighter quote_doge)]"
               and d = quote_doge and ex = Paradex and now = 3001
               and c = cache_with_stranger and s = "''DOGE''"]
    by simp
qed

lemma venue_slot_recompute [simp]: "venue_slot ex (recompute flt p) = venue_slot ex p"
  by (cases ex) (simp_all add: recompute_def split: option.splits)

lemma venue_slot_set_same [simp]: "venue_slot ex (set_venue_slot ex q p) = q"
  by (cases ex) simp_all

lemma venue_slot_set_other:
  "ex' \<noteq> ex \<Longrightarrow> venue_slot ex' (set_venue_slot ex q p) = venue_slot ex' p"
  by (cases ex; cases ex') simp_all

lemma assign_target_eq:
  "assign_target d t =
     \<lparr> bid = q_bid d, ask = q_ask d, timestamp = q_timestamp d, source = q_source d \<rparr>"
  by (simp add: assign_target_def)

text \<open>
  C2, as stated, fails: \<^verbatim>\<open>handleUpdate\<close> compares no timestamps. After a quote stamped
  2000 is stored for (BTC, vest), a quote stamped 1000 replaces it, and the stored
  timestamp goes back from 2000 to 1000.
\<close>

theorem older_quote_overwrites:
  "map_option (timestamp \<circ> vest)
     (map_of (PRICE_CACHE (handleUpdate [''BTC''] Vest quote_new 2000
                (startScheduler [''BTC''] initial))) ''BTC'') = Some 2000
   \<and> map_option (timestamp \<circ> vest)
       (map_of (PRICE_CACHE (handleUpdate [''BTC''] Vest quote_old 2001
                 (handleUpdate [''BTC''] Vest quote_new 2000
                    (startScheduler [''BTC''] initial)))) ''BTC'') = Some 1000"
  by (simp add: PRICE_CACHE_handleUpdate map_of_calculateSpreads update_conv'
        option.map_comp comp_def assign_target_eq quote_new_def quote_old_def stored_def
        startScheduler_def initial_def createPair_def recompute_def split: option.splits)

text \<open>
  C2, amended. For an allow-listed symbol, whatever the timestamps of the incoming and of
  the stored quote, after \<^verbatim>\<open>handleUpdate\<close> the slot of that venue holds exactly the bid,
  ask, timestamp and source of the incoming quote; the slots of the other venues of that
  symbol, and the slots of every other symbol, are as before.
\<close>

theorem upsert_replaces_unconditionally:
  "q_symbol d \<in> set A \<Longrightarrow>
     map_option (venue_slot ex) (map_of (PRICE_CACHE (handleUpdate A ex d now a)) (q_symbol d))
       = Some \<lparr> bid = q_bid d, ask = q_ask d, timestamp = q_timestamp d, source = q_source d \<rparr>
     \<and> (ex' \<noteq> ex \<longrightarrow>
          map_option (venue_slot ex')
            (map_of (PRICE_CACHE (handleUpdate A ex d now a)) (q_symbol d))
          = Some (venue_slot ex' (stored (PRICE_CACHE a) (q_symbol d))))
     \<and> (s \<noteq> q_symbol d \<longrightarrow>
          map_option (venue_slot ex') (map_of (PRICE_CACHE (handleUpdate A ex d now a)) s)
          = map_option (venue_slot ex') (map_of (PRICE_CACHE a) s))"
  by (simp add: PRICE_CACHE_handleUpdate map_of_calculateSpreads update_conv'
        option.map_comp comp_def assign_target_eq venue_slot_set_other)

theorem upsert_replaces_unconditionally_witness:
  "q_symbol quote_old \<in> set [''BTC'']
   \<and> map_option (venue_slot Vest)
       (map_of (PRICE_CACHE (handleUpdate [''BTC''] Vest quote_old 2001
                 (handleUpdate [''BTC''] Vest quote_new 2000
                    (startScheduler [''BTC''] initial)))) ''BTC'')
     = Some \<lparr> bid = 90, ask = 91, timestamp = 1000, source = ''rest'' \<rparr>
   \<and> Paradex \<noteq> Vest \<and> ''ETH'' \<noteq> q_symbol quote_old"
proof -
  have h: "q_symbol quote_old \<in> set [''BTC'']"
    by (simp add: quote_old_def)
  show ?thesis
    using h upsert_replaces_unconditionally
            [OF h, of Vest 2001
               "handleUpdate [''BTC''] Vest quote_new 2000 (startScheduler [''BTC''] initial)"
               Paradex "''ETH''"]
    by (simp add: quote_old_def)
qed

section \<open>Properties of the spread engine\<close>

lemma pick_bid_None [simp]: "pick_bid xs = None \<longleftrightarrow> xs = []"
  by (cases xs) (auto split: option.splits)

lemma pick_ask_None [simp]: "pick_ask xs = None \<longleftrightarrow> xs = []"
  by (cases xs) (auto split: option.splits)

lemma pick_bid_Max:
  "pick_bid xs = Some b \<Longrightarrow> b \<in> set xs \<and> bid (snd b) = Max ((\<lambda>x. bid (snd x)) ` set xs)"
proof (induction xs arbitrary: b)
  case Nil
  then show ?case by simp
next
  case (Cons x xs)
  show ?case
  proof (cases "pick_bid xs")
    case None
    with Cons.prems show ?thesis by simp
  next
    case (Some y)
    then have ne: "xs \<noteq> []" by auto
    from Cons.IH [OF Some]
    have y: "y \<in> set xs" "bid (snd y) = Max ((\<lambda>x. bid (snd x)) ` set xs)"
      by auto
    have "Max ((\<lambda>x. bid (snd x)) ` set (x # xs))
            = max (bid (snd x)) (Max ((\<lambda>x. bid (snd x)) ` set xs))"
      using ne by simp
    with Cons.prems Some y show ?thesis
      by (auto split: if_splits simp: max_def)
  qed
qed

lemma pick_ask_Min:
  "pick_ask xs = Some b \<Longrightarrow> b \<in> set xs \<and> ask (snd b) = Min ((\<lambda>x. ask (snd x)) ` set xs)"
proof (induction xs arbitrary: b)
  case Nil
  then show ?case by simp
next
  case (Cons x xs)
  show ?case
  proof (cases "pick_ask xs")
    case None
    with Cons.prems show ?thesis by simp
  next
    case (Some y)
    then have ne: "xs \<noteq> []" by auto
    from Cons.IH [OF Some]
    have y: "y \<in> set xs" "ask (snd y) = Min ((\<lambda>x. ask (snd x)) ` set xs)"
      by auto
    have "Min ((\<lambda>x. ask (snd x)) ` set (x # xs))
            = min (ask (snd x)) (Min ((\<lambda>x. ask (snd x)) ` set xs))"
      using ne by simp
    with Cons.prems Some y show ?thesis
      by (auto split: if_splits simp: min_def)
  qed
qed

lemma snd_contributing:
  "snd ` set (contributing (\<lambda>exchange data. isFresh now (timestamp data)) p) = fresh_valid now p"
  by (auto simp: contributing_def venue_quotes_def fresh_valid_def)

lemma fresh_valid_recompute [simp]: "fresh_valid now (recompute flt p) = fresh_valid now p"
  by (simp add: fresh_valid_def recompute_def split: option.splits)

lemma recompute_best:
  fixes now p
  defines "p' \<equiv> recompute (\<lambda>exchange data. isFresh now (timestamp data)) p"
  shows "(fresh_valid now p = {} \<longrightarrow> bestBid p' = 0 \<and> bestAsk p' = 0)
       \<and> (fresh_valid now p \<noteq> {} \<longrightarrow>
            bestBid p' = Max (bid ` fresh_valid now p)
            \<and> bestAsk p' = Min (ask ` fresh_valid now p))"
proof (cases "contributing (\<lambda>exchange data. isFresh now (timestamp data)) p = []")
  case True
  then have "fresh_valid now p = {}"
    using snd_contributing [of now p] by simp
  with True show ?thesis by (simp add: p'_def recompute_def)
next
  case False
  let ?xs = "contributing (\<lambda>exchange data. isFresh now (timestamp data)) p"
  from False obtain b a where ba: "pick_bid ?xs = Some b" "pick_ask ?xs = Some a"
    by (metis pick_bid_None pick_ask_None option.exhaust)
  have ne: "fresh_valid now p \<noteq> {}"
    using False snd_contributing [of now p] by auto
  have img: "(\<lambda>x. bid (snd x)) ` set ?xs = bid ` fresh_valid now p"
            "(\<lambda>x. ask (snd x)) ` set ?xs = ask ` fresh_valid now p"
    using snd_contributing [of now p] by (metis image_image)+
  from pick_bid_Max [OF ba(1)] pick_ask_Min [OF ba(2)] ba ne img show ?thesis
    by (simp add: p'_def recompute_def)
qed

text \<open>
  C1. Whatever upserts came before (the state \<open>a\<close> is arbitrary), after the recomputation
  that an upsert at time \<open>now\<close> triggers, every pair of the cache has as \<^verbatim>\<open>bestBid\<close> the
  greatest bid and as \<^verbatim>\<open>bestAsk\<close> the least ask over its quotes that are fresh at \<open>now\<close>
  and have a positive bid and ask; with no such quote both are the no-signal value 0.
\<close>

theorem best_prices_over_fresh_valid_quotes:
  assumes "q_symbol d \<in> set A"
      and "(k, p) \<in> set (PRICE_CACHE (handleUpdate A ex d now a))"
  shows "(fresh_valid now p = {} \<longrightarrow> bestBid p = 0 \<and> bestAsk p = 0)
       \<and> (fresh_valid now p \<noteq> {} \<longrightarrow>
            bestBid p = Max (bid ` fresh_valid now p)
            \<and> bestAsk p = Min (ask ` fresh_valid now p))"
proof -
  from assms obtain p0 where "p = recompute (\<lambda>exchange data. isFresh now (timestamp data)) p0"
    by (auto simp: PRICE_CACHE_handleUpdate calculateSpreads_def)
  then show ?thesis
    using recompute_best [of now p0] by simp
qed

lemma scenario_cache:
  "PRICE_CACHE (handleUpdate [''BTC''] Paradex quote_c 1500
      (handleUpdate [''BTC''] Vest quote_a 1000 (startScheduler [''BTC''] initial)))
     = [(''BTC'', scenario_pair)]"
  by (simp add: PRICE_CACHE_handleUpdate startScheduler_def initial_def createPair_def
        stored_def assign_target_eq quote_a_def quote_c_def calculateSpreads_def
        recompute_def contributing_def venue_quotes_def isFresh_def STALE_THRESHOLD_def
        scenario_pair_def)

lemma scenario_fresh_valid:
  "fresh_valid 1500 scenario_pair = {vest scenario_pair, paradex scenario_pair}"
  by (auto simp: fresh_valid_def scenario_pair_def isFresh_def STALE_THRESHOLD_def)

theorem best_prices_over_fresh_valid_quotes_witness:
  "q_symbol quote_c \<in> set [''BTC'']
   \<and> (''BTC'', scenario_pair)
       \<in> set (PRICE_CACHE (handleUpdate [''BTC''] Paradex quote_c 1500
                (handleUpdate [''BTC''] Vest quote_a 1000 (startScheduler [''BTC''] initial))))
   \<and> fresh_valid 1500 scenario_pair \<noteq> {}
   \<and> bestBid scenario_pair = Max (bid ` fresh_valid 1500 scenario_pair)
   \<and> bestAsk scenario_pair = Min (ask ` fresh_valid 1500 scenario_pair)
   \<and> bestBid scenario_pair = 102 \<and> bestAsk scenario_pair = 1002 / 10"
proof -
  have h1: "q_symbol quote_c \<in> set [''BTC'']"
    by (simp add: quote_c_def)
  have h2: "(''BTC'', scenario_pair)
       \<in> set (PRICE_CACHE (handleUpdate [''BTC''] Paradex quote_c 1500
                (handleUpdate [''BTC''] Vest quote_a 1000 (startScheduler [''BTC''] initial))))"
    by (simp add: scenario_cache)
  have h3: "fresh_valid 1500 scenario_pair \<noteq> {}"
    by (simp add: scenario_fresh_valid)
  show ?thesis
    using h1 h2 h3 best_prices_over_fresh_valid_quotes [OF h1 h2]
    by (simp add: scenario_pair_def)
qed










section \<open>Properties of the alert gate\<close>

lemma saveAlert_store:
  "fst (saveAlert p now st) =
     (if too_soon st (symbol p) now then st
      else st\<lparr> inflight := inflight st @ [request now p] \<rparr>)"
  by (simp add: saveAlert_def request_def)

lemma too_soon_inflight [simp]: "too_soon (st\<lparr> inflight := x \<rparr>) s now = too_soon st s now"
  by (simp add: too_soon_def)

lemma qualifies_inflight [simp]: "qualifies (st\<lparr> inflight := x \<rparr>) now p = qualifies st now p"
  by (simp add: qualifies_def)

lemma store_persist_pair:
  "store (persist_pair now p a) =
     (if qualifies (store a) now p
      then (store a)\<lparr> inflight := inflight (store a) @ [request now p] \<rparr>
      else store a)"
  by (simp add: persist_pair_def Let_def saveAlert_store qualifies_def)

lemma store_fold_persist:
  "store (fold (persist_pair now) ps a) =
     (store a)\<lparr> inflight := inflight (store a) @
                  map (request now) (filter (qualifies (store a) now) ps) \<rparr>"
proof (induction ps arbitrary: a)
  case Nil
  then show ?case by simp
next
  case (Cons p ps)
  show ?case
    by (simp add: Cons.IH store_persist_pair)
qed

lemma store_updateAndRecalculate:
  "store (updateAndRecalculate A now a) =
     (store a)\<lparr> inflight := inflight (store a) @
        map (request now)
          (filter (qualifies (store a) now)
             (map snd (calculateSpreads (PRICE_CACHE a)
                         (\<lambda>exchange data. isFresh now (timestamp data))))) \<rparr>"
  by (simp add: updateAndRecalculate_def Let_def store_fold_persist)

lemma store_handleUpdate:
  "q_symbol d \<in> set A \<Longrightarrow>
   store (handleUpdate A ex d now a) =
     (store a)\<lparr> inflight := inflight (store a) @
        map (request now)
          (filter (qualifies (store a) now)
             (map snd (PRICE_CACHE (handleUpdate A ex d now a)))) \<rparr>"
  by (simp add: PRICE_CACHE_handleUpdate)
     (simp add: handleUpdate_def ensurePair_def store_updateAndRecalculate stored_def
        split: option.splits)

lemma crossed_cache:
  "PRICE_CACHE (handleUpdate [''BTC''] Vest quote_crossed 1000 (startScheduler [''BTC''] initial))
     = [(''BTC'', crossed_pair)]"
  by (simp add: PRICE_CACHE_handleUpdate startScheduler_def initial_def createPair_def
        stored_def assign_target_eq quote_crossed_def calculateSpreads_def
        recompute_def contributing_def venue_quotes_def isFresh_def STALE_THRESHOLD_def
        crossed_pair_def)

lemma crossed_qualifies: "qualifies (store initial) 1000 crossed_pair"
  by (simp add: qualifies_def crossed_pair_def ALERT_THRESHOLD_def too_soon_def initial_def)

text \<open>
  C3, as stated, fails: the venues are never compared. One venue quotes a bid of 101 over
  an ask of 100; it is the best bid and the best ask, the spread is 1%, and once the write
  completes the table holds a record whose buy and sell exchange are both that venue.
\<close>

theorem same_venue_alert_is_persisted:
  "alerts (store (run [''BTC''] (startScheduler [''BTC''] initial)
                    [(1000, Update Vest quote_crossed), (1005, DbCompletes 0 (DbDone 1))]))
     = [alert_record 1000 crossed_pair]
   \<and> map_of (alert_record 1000 crossed_pair) ''exchange_buy'' = Some (SqlText ''VEST'')
   \<and> map_of (alert_record 1000 crossed_pair) ''exchange_sell'' = Some (SqlText ''VEST'')
   \<and> bestBidEx crossed_pair = bestAskEx crossed_pair"
proof -
  have q: "q_symbol quote_crossed \<in> set [''BTC'']" by (simp add: quote_crossed_def)
  have s0: "store (startScheduler [''BTC''] initial) = store initial"
    by (simp add: startScheduler_def)
  have s1: "store (handleUpdate [''BTC''] Vest quote_crossed 1000 (startScheduler [''BTC''] initial))
          = (store initial)\<lparr> inflight := [request 1000 crossed_pair] \<rparr>"
    by (simp add: store_handleUpdate [OF q] crossed_cache s0 crossed_qualifies)
       (simp add: initial_def)
  show ?thesis
    by (simp add: run_def s1 db_callback_def request_def)
       (simp add: initial_def alert_record_def alert_columns_def alert_params_def sql_text_def
          crossed_pair_def)
qed

text \<open>
  C3, amended. A recomputation at \<open>now\<close> issues the write of an alert record for exactly
  the pairs of the recomputed cache with a positive best bid and best ask, a spread of at
  least the threshold and a symbol outside its cool-down, in cache order, and changes
  nothing else of the alert store; the best venues play no part.
\<close>

theorem alert_writes_issued:
  "store (updateAndRecalculate A now a) =
     (store a)\<lparr> inflight := inflight (store a) @
        map (request now)
          (filter (qualifies (store a) now)
             (map snd (PRICE_CACHE (updateAndRecalculate A now a)))) \<rparr>
   \<and> (qualifies st now p \<longleftrightarrow>
        bestBid p > 0 \<and> bestAsk p > 0 \<and> realSpread p \<ge> ALERT_THRESHOLD
        \<and> \<not> too_soon st (symbol p) now)"
  by (simp add: store_updateAndRecalculate PRICE_CACHE_updateAndRecalculate qualifies_def)

lemma crossed_recalc:
  "calculateSpreads [(''BTC'', crossed_pair)] (\<lambda>exchange data. isFresh 1000 (timestamp data))
     = [(''BTC'', crossed_pair)]"
  by (simp add: calculateSpreads_def recompute_def contributing_def venue_quotes_def
        isFresh_def STALE_THRESHOLD_def crossed_pair_def)

theorem alert_writes_issued_witness:
  "inflight (store (updateAndRecalculate [''BTC''] 1000
                      (initial\<lparr> PRICE_CACHE := [(''BTC'', crossed_pair)] \<rparr>)))
     = [request 1000 crossed_pair]
   \<and> bestBidEx crossed_pair = bestAskEx crossed_pair"
proof -
  have c: "PRICE_CACHE (updateAndRecalculate [''BTC''] 1000
                      (initial\<lparr> PRICE_CACHE := [(''BTC'', crossed_pair)] \<rparr>))
            = [(''BTC'', crossed_pair)]"
    by (simp add: PRICE_CACHE_updateAndRecalculate crossed_recalc)
  have i: "inflight (store initial) = []" by (simp add: initial_def)
  show ?thesis
    using alert_writes_issued
            [of "[''BTC'']" 1000 "initial\<lparr> PRICE_CACHE := [(''BTC'', crossed_pair)] \<rparr>"
                "store initial" crossed_pair]
    by (simp add: c crossed_qualifies i) (simp add: crossed_pair_def)
qed

text \<open>
  C5, as stated, fails: the timestamp is written by the success branch of the completion
  callback only. After a write attempted at 1000 has failed, no timestamp is recorded for
  the symbol, and the call at 2000, one second later, issues a second write.
\<close>

theorem failed_save_leaves_no_timestamp:
  "alertCache (failed_then crossed_pair 1000 ''SQLITE_BUSY'' (store initial)) ''BTC'' = None
   \<and> saveAlert crossed_pair 2000 (failed_then crossed_pair 1000 ''SQLITE_BUSY'' (store initial))
      = ((store initial)\<lparr> inflight := [request 2000 crossed_pair],
                           errorLog := [''Error saving alert:''] \<rparr>, None)"
  by (simp add: failed_then_def saveAlert_def db_callback_def too_soon_def initial_def
        request_def crossed_pair_def)

text \<open>
  C5, amended. When the write of an alert fails, the error is logged, the promise is
  rejected, and the store is otherwise as it was before the call: the deduplication
  timestamp keeps the value it had before the attempt, so that every later call is
  deduplicated exactly as if the failed attempt had not been made.
\<close>

theorem failed_save_restores_dedup_state:
  "\<not> too_soon st (symbol opp) now \<Longrightarrow>
     db_callback (length (inflight st)) (DbError err) (fst (saveAlert opp now st))
       = (st\<lparr> errorLog := errorLog st @ [''Error saving alert:''] \<rparr>, Some (Rejected err))
     \<and> alertCache (failed_then opp now err st) = alertCache st
     \<and> too_soon (failed_then opp now err st) s now' = too_soon st s now'"
  by (simp add: failed_then_def saveAlert_def db_callback_def too_soon_def)

theorem failed_save_restores_dedup_state_witness:
  "\<not> too_soon (store initial) (symbol crossed_pair) 1000
   \<and> alertCache (failed_then crossed_pair 1000 ''SQLITE_BUSY'' (store initial))
       = alertCache (store initial)
   \<and> \<not> too_soon (failed_then crossed_pair 1000 ''SQLITE_BUSY'' (store initial)) ''BTC'' 2000"
proof -
  have h: "\<not> too_soon (store initial) (symbol crossed_pair) 1000"
    by (simp add: too_soon_def initial_def)
  have h2: "\<not> too_soon (store initial) ''BTC'' 2000"
    by (simp add: too_soon_def initial_def)
  show ?thesis
    using h h2 failed_save_restores_dedup_state
                 [OF h, of "''SQLITE_BUSY''" "''BTC''" 2000]
    by simp
qed

text \<open>
  When the write of the first call has completed with success before the second call is
  made, the cool-down works: a call of \<^verbatim>\<open>saveAlert\<close> at \<open>now1\<close> (after the epoch) passes
  the deduplication test and its write completes; a second call for the same symbol less
  than \<^verbatim>\<open>CACHE_TTL\<close> after \<open>now1\<close> resolves with \<^verbatim>\<open>null\<close>, raises nothing and leaves
  the store as it is. The table has gained exactly the one record of the first call.
\<close>

lemma second_alert_in_cooldown_is_dropped:
  assumes "\<not> too_soon st (symbol opp1) now1"
      and "0 < now1"
      and "now2 - now1 < CACHE_TTL"
      and "symbol opp2 = symbol opp1"
  shows "saveAlert opp2 now2 (saved_then opp1 now1 lastID st)
           = (saved_then opp1 now1 lastID st, Some ResolvedNull)
       \<and> alerts (saved_then opp1 now1 lastID st) = alerts st @ [alert_record now1 opp1]
       \<and> inflight (saved_then opp1 now1 lastID st) = inflight st"
  using assms
  by (simp add: saved_then_def saveAlert_def db_callback_def too_soon_def)

text \<open>
  The timestamp is set by the completion callback, so two calls that both precede it both
  issue a write.
\<close>

lemma second_call_before_completion_is_not_deduplicated:
  "\<not> too_soon st (symbol opp) now1 \<Longrightarrow> \<not> too_soon st (symbol opp) now2 \<Longrightarrow>
     saveAlert opp now2 (fst (saveAlert opp now1 st))
       = (st\<lparr> inflight := inflight st @ [request now1 opp, request now2 opp] \<rparr>, None)"
  by (simp add: saveAlert_def request_def)

lemma vest_only_cache:
  "PRICE_CACHE (handleUpdate [''BTC''] Vest quote_a 1000 (startScheduler [''BTC''] initial))
     = [(''BTC'', vest_only_pair)]"
  by (simp add: PRICE_CACHE_handleUpdate startScheduler_def initial_def createPair_def
        stored_def assign_target_eq quote_a_def calculateSpreads_def
        recompute_def contributing_def venue_quotes_def isFresh_def STALE_THRESHOLD_def
        vest_only_pair_def)

lemma vest_only_store:
  "store (handleUpdate [''BTC''] Vest quote_a 1000 (startScheduler [''BTC''] initial))
     = store initial"
proof -
  have q: "q_symbol quote_a \<in> set [''BTC'']" by (simp add: quote_a_def)
  have s0: "store (startScheduler [''BTC''] initial) = store initial"
    by (simp add: startScheduler_def)
  have nq: "\<not> qualifies (store initial) 1000 vest_only_pair"
    by (simp add: qualifies_def vest_only_pair_def ALERT_THRESHOLD_def)
  show ?thesis
    by (simp add: store_handleUpdate [OF q] vest_only_cache s0 nq)
qed

lemma scenario_qualifies: "qualifies (store initial) now scenario_pair"
  by (simp add: qualifies_def scenario_pair_def ALERT_THRESHOLD_def too_soon_def initial_def)

lemma scenario_store:
  "store (handleUpdate [''BTC''] Paradex quote_c 1500
            (handleUpdate [''BTC''] Vest quote_a 1000 (startScheduler [''BTC''] initial)))
     = (store initial)\<lparr> inflight := [request 1500 scenario_pair] \<rparr>"
proof -
  have q: "q_symbol quote_c \<in> set [''BTC'']" by (simp add: quote_c_def)
  let ?a1 = "handleUpdate [''BTC''] Vest quote_a 1000 (startScheduler [''BTC''] initial)"
  have "store (handleUpdate [''BTC''] Paradex quote_c 1500 ?a1)
          = (store ?a1)\<lparr> inflight := inflight (store ?a1) @
              map (request 1500)
                (filter (qualifies (store ?a1) 1500)
                   (map snd (PRICE_CACHE (handleUpdate [''BTC''] Paradex quote_c 1500 ?a1)))) \<rparr>"
    by (rule store_handleUpdate [OF q])
  also have "\<dots> = (store initial)\<lparr> inflight := [request 1500 scenario_pair] \<rparr>"
    by (simp add: scenario_cache vest_only_store scenario_qualifies) (simp add: initial_def)
  finally show ?thesis .
qed

lemma scenario_cache_again:
  assumes "PRICE_CACHE a = [(''BTC'', scenario_pair)]"
  shows "PRICE_CACHE (handleUpdate [''BTC''] Paradex quote_c 1501 a) = [(''BTC'', scenario_pair)]"
  by (simp add: PRICE_CACHE_handleUpdate assms stored_def assign_target_eq quote_c_def
        calculateSpreads_def recompute_def contributing_def venue_quotes_def isFresh_def
        STALE_THRESHOLD_def scenario_pair_def)

lemma scenario_store_again:
  "store (handleUpdate [''BTC''] Paradex quote_c 1501
            (handleUpdate [''BTC''] Paradex quote_c 1500
               (handleUpdate [''BTC''] Vest quote_a 1000 (startScheduler [''BTC''] initial))))
     = (store initial)\<lparr> inflight := [request 1500 scenario_pair, request 1501 scenario_pair] \<rparr>"
proof -
  have q: "q_symbol quote_c \<in> set [''BTC'']" by (simp add: quote_c_def)
  let ?a2 = "handleUpdate [''BTC''] Paradex quote_c 1500
               (handleUpdate [''BTC''] Vest quote_a 1000 (startScheduler [''BTC''] initial))"
  have "store (handleUpdate [''BTC''] Paradex quote_c 1501 ?a2)
          = (store ?a2)\<lparr> inflight := inflight (store ?a2) @
              map (request 1501)
                (filter (qualifies (store ?a2) 1501)
                   (map snd (PRICE_CACHE (handleUpdate [''BTC''] Paradex quote_c 1501 ?a2)))) \<rparr>"
    by (rule store_handleUpdate [OF q])
  also have "\<dots> = (store initial)\<lparr> inflight := [request 1500 scenario_pair,
                                                request 1501 scenario_pair] \<rparr>"
    by (simp add: scenario_cache_again [OF scenario_cache] scenario_store scenario_qualifies)
  finally show ?thesis .
qed

text \<open>
  C6 is not what the code does when the second event comes before the write of the first
  has completed. In the scenario of the spec the spread qualifies at 1500, and the quote
  of venue C arrives once more at 1501, within the cool-down and before the first write
  has completed: the second call of \<^verbatim>\<open>saveAlert\<close> finds no timestamp yet, is not resolved
  with \<^verbatim>\<open>null\<close> and issues a second write; both writes succeed and the table holds two
  records for the symbol.
\<close>

theorem overlapping_alerts_are_both_persisted:
  "alerts (store (run [''BTC''] (startScheduler [''BTC''] initial) overlap))
     = [alert_record 1500 scenario_pair, alert_record 1501 scenario_pair]
   \<and> saveAlert scenario_pair 1501 (fst (saveAlert scenario_pair 1500 (store initial)))
       = ((store initial)\<lparr> inflight := [request 1500 scenario_pair,
                                          request 1501 scenario_pair] \<rparr>,
          None)"
proof -
  have 1: "alerts (store (run [''BTC''] (startScheduler [''BTC''] initial) overlap))
     = [alert_record 1500 scenario_pair, alert_record 1501 scenario_pair]"
    by (simp add: run_def overlap_def scenario_store_again db_callback_def request_def)
       (simp add: initial_def)
  have 2: "saveAlert scenario_pair 1501 (fst (saveAlert scenario_pair 1500 (store initial)))
       = ((store initial)\<lparr> inflight := [request 1500 scenario_pair,
                                          request 1501 scenario_pair] \<rparr>,
          None)"
    by (simp add: saveAlert_def request_def too_soon_def initial_def)
  from 1 2 show ?thesis by (rule conjI)
qed

text \<open>
  C10. The record a successful \<^verbatim>\<open>saveAlert\<close> appends to the table binds, column by
  column, the buy exchange to the best-ask venue, the buy price to the best ask, the sell
  exchange to the best-bid venue and the sell price to the best bid.
\<close>

theorem alert_record_sides:
  assumes "saveAlert opp now st = (st1, None)"
      and "db_callback (length (inflight st)) (DbDone lastID) st1 = (st2, r)"
  shows "alerts st2 = alerts st @ [alert_record now opp]
       \<and> map_of (alert_record now opp) ''exchange_buy'' = Some (sql_text (bestAskEx opp))
       \<and> map_of (alert_record now opp) ''price_buy'' = Some (SqlNum (bestAsk opp))
       \<and> map_of (alert_record now opp) ''exchange_sell'' = Some (sql_text (bestBidEx opp))
       \<and> map_of (alert_record now opp) ''price_sell'' = Some (SqlNum (bestBid opp))"
  using assms
  by (auto simp: saveAlert_def db_callback_def alert_record_def alert_columns_def
        alert_params_def split: if_splits)

theorem alert_record_sides_witness:
  "saveAlert scenario_pair 1500 (store initial)
     = ((store initial)\<lparr> inflight := [request 1500 scenario_pair] \<rparr>, None)
   \<and> alerts (fst (db_callback 0 (DbDone 1)
                ((store initial)\<lparr> inflight := [request 1500 scenario_pair] \<rparr>)))
       = [alert_record 1500 scenario_pair]
   \<and> map_of (alert_record 1500 scenario_pair) ''exchange_buy'' = Some (SqlText ''VEST'')
   \<and> map_of (alert_record 1500 scenario_pair) ''price_buy'' = Some (SqlNum (1002 / 10))
   \<and> map_of (alert_record 1500 scenario_pair) ''exchange_sell'' = Some (SqlText ''PARADEX'')
   \<and> map_of (alert_record 1500 scenario_pair) ''price_sell'' = Some (SqlNum 102)"
proof -
  have h1: "saveAlert scenario_pair 1500 (store initial)
     = ((store initial)\<lparr> inflight := [request 1500 scenario_pair] \<rparr>, None)"
    by (simp add: saveAlert_def too_soon_def initial_def request_def)
  have h2: "db_callback (length (inflight (store initial))) (DbDone 1)
              ((store initial)\<lparr> inflight := [request 1500 scenario_pair] \<rparr>)
            = (fst (db_callback 0 (DbDone 1)
                     ((store initial)\<lparr> inflight := [request 1500 scenario_pair] \<rparr>)),
               snd (db_callback 0 (DbDone 1)
                     ((store initial)\<lparr> inflight := [request 1500 scenario_pair] \<rparr>)))"
    by (simp add: initial_def)
  have i: "alerts (store initial) = []" by (simp add: initial_def)
  show ?thesis
    using h1 alert_record_sides [OF h1 h2]
    by (simp add: i) (simp add: scenario_pair_def sql_text_def)
qed

section \<open>Properties of the broadcast throttle\<close>

lemma thr_persist_pair [simp]: "thr (persist_pair now p a) = thr a"
  by (simp add: persist_pair_def Let_def)

lemma thr_fold_persist [simp]: "thr (fold (persist_pair now) ps a) = thr a"
  by (induction ps arbitrary: a) simp_all

lemma thr_handleUpdate:
  "thr (handleUpdate A ex d now a) =
     (if q_symbol d \<in> set A
      then throttledBroadcast A (PRICE_CACHE (handleUpdate A ex d now a)) now (thr a)
      else thr a)"
  by (simp add: PRICE_CACHE_handleUpdate)
     (simp add: handleUpdate_def ensurePair_def updateAndRecalculate_def Let_def stored_def
        split: option.splits)

lemma spaced_snoc:
  "spaced (xs @ [y]) \<longleftrightarrow> spaced xs \<and> (xs = [] \<or> BROADCAST_THROTTLE \<le> y - last xs)"
  by (induction xs rule: spaced.induct) auto

lemma spaced_later: "spaced (x # xs) \<Longrightarrow> y \<in> set xs \<Longrightarrow> x + BROADCAST_THROTTLE \<le> y"
proof (induction xs arbitrary: x)
  case Nil
  then show ?case by simp
next
  case (Cons z zs)
  from Cons.prems(1) have 1: "x + BROADCAST_THROTTLE \<le> z" and 2: "spaced (z # zs)" by auto
  show ?case
  proof (cases "y = z")
    case True
    with 1 show ?thesis by simp
  next
    case False
    with Cons.prems(2) have "y \<in> set zs" by simp
    from Cons.IH [OF 2 this] 1 show ?thesis by (simp add: BROADCAST_THROTTLE_def)
  qed
qed

lemma spaced_window:
  "spaced ts \<Longrightarrow> length (filter (\<lambda>t. w \<le> t \<and> t < w + BROADCAST_THROTTLE) ts) \<le> 1"
proof (induction ts)
  case Nil
  then show ?case by simp
next
  case (Cons x xs)
  from Cons.prems have sp: "spaced xs" by (cases xs) auto
  show ?case
  proof (cases "w \<le> x \<and> x < w + BROADCAST_THROTTLE")
    case True
    have "\<not> y < w + BROADCAST_THROTTLE" if "y \<in> set xs" for y
      using spaced_later [OF Cons.prems that] True by simp
    then have "filter (\<lambda>t. w \<le> t \<and> t < w + BROADCAST_THROTTLE) xs = []"
      by (simp add: filter_empty_conv)
    with True show ?thesis by simp
  next
    case False
    with Cons.IH [OF sp] show ?thesis by auto
  qed
qed

lemma inv_performBroadcast:
  assumes "thr_inv t" and "\<not> broadcastPending t"
      and "BROADCAST_THROTTLE \<le> now - lastBroadcastTime t"
  shows "thr_inv (performBroadcast A c now t)"
proof (cases "sent t = []")
  case True
  with assms show ?thesis
    by (simp add: thr_inv_def performBroadcast_def Let_def)
next
  case False
  with assms show ?thesis
    by (simp add: thr_inv_def performBroadcast_def Let_def spaced_snoc last_map)
qed

lemma inv_throttledBroadcast:
  "thr_inv t \<Longrightarrow> thr_inv (throttledBroadcast A c now t)"
  by (simp add: throttledBroadcast_def Let_def inv_performBroadcast)
     (simp add: thr_inv_def)

lemma inv_timer_callback:
  assumes "thr_inv t" and "timers t = due # rest" and "due \<le> now"
  shows "thr_inv (timer_callback A c now t)"
proof -
  from assms have d: "due = lastBroadcastTime t + BROADCAST_THROTTLE" and r: "rest = []"
    by (auto simp: thr_inv_def split: if_splits)
  let ?t = "t\<lparr> timers := [], broadcastPending := False \<rparr>"
  have i: "thr_inv ?t" using assms(1) by (simp add: thr_inv_def)
  have "thr_inv (performBroadcast A c now ?t)"
    by (rule inv_performBroadcast [OF i]) (use d assms(3) in simp_all)
  moreover have "timer_callback A c now t = performBroadcast A c now ?t"
    using assms(2) r by (simp add: timer_callback_def performBroadcast_def Let_def)
  ultimately show ?thesis by simp
qed

lemma inv_step:
  assumes "thr_inv (thr a)" and "schedule_ok A a [(now, ev)]"
  shows "thr_inv (thr (step A a (now, ev)))"
proof (cases ev)
  case (Update ex d)
  with assms show ?thesis by (simp add: thr_handleUpdate inv_throttledBroadcast)
next
  case (DbCompletes i res)
  with assms show ?thesis by (simp split: prod.splits option.splits settled.splits)
next
  case TimerFires
  with assms show ?thesis by (auto split: list.splits intro: inv_timer_callback)
next
  case Register
  with assms show ?thesis by (simp add: setWebSocketBroadcaster_def thr_inv_def)
qed

lemma inv_run:
  "thr_inv (thr a) \<Longrightarrow> schedule_ok A a evs \<Longrightarrow> thr_inv (thr (run A a evs))"
proof (induction evs arbitrary: a)
  case Nil
  then show ?case by (simp add: run_def)
next
  case (Cons e evs)
  obtain now ev where e: "e = (now, ev)" by (cases e)
  from Cons.prems(2) e have 1: "schedule_ok A a [(now, ev)]"
    and 2: "schedule_ok A (step A a (now, ev)) evs" by simp_all
  from Cons.IH [OF inv_step [OF Cons.prems(1) 1] 2] e show ?case by (simp add: run_def)
qed

lemma inv_started:
  "schedule_ok A (startScheduler A initial) evs \<Longrightarrow> thr_inv (thr (started A evs))"
  unfolding started_def
  by (rule inv_run) (simp_all add: startScheduler_def initial_def thr_inv_def)

lemma keys_started: "fst ` set (PRICE_CACHE (started A evs)) = set A"
  unfolding started_def
  by (rule keys_run) (simp add: startScheduler_def keys_seed)

lemma snapshot_nonempty:
  assumes "fst ` set (PRICE_CACHE a) = set A" and "A \<noteq> []"
  shows "getPriceCache A (PRICE_CACHE a) \<noteq> []"
proof
  assume "getPriceCache A (PRICE_CACHE a) = []"
  then have "fst ` set (getPriceCache A (PRICE_CACHE a)) = {}" by simp
  with assms show False by (simp add: keys_getPriceCache)
qed

lemma snapshot_after_update:
  assumes "fst ` set (PRICE_CACHE a) = set A" and "q_symbol d \<in> set A"
  shows "getPriceCache A (PRICE_CACHE (handleUpdate A ex d now a)) \<noteq> []"
proof -
  have k: "fst ` set (PRICE_CACHE (handleUpdate A ex d now a)) = set A"
    using assms by (simp add: keys_handleUpdate insert_absorb)
  from assms(2) have ne: "A \<noteq> []" by auto
  show ?thesis by (rule snapshot_nonempty [OF k ne])
qed

lemma thr_update_new:
  "thr (handleUpdate [''BTC''] Vest quote_new now a)
     = throttledBroadcast [''BTC''] (PRICE_CACHE (handleUpdate [''BTC''] Vest quote_new now a))
         now (thr a)"
  by (simp add: thr_handleUpdate quote_new_def)

lemma burst_step0:
  "thr (step [''BTC''] (startScheduler [''BTC''] initial) (5000, Register))
     = \<lparr> wsBroadcaster = True, lastBroadcastTime = 0, broadcastPending = False,
         timers = [], sent = [] \<rparr>"
  by (simp add: setWebSocketBroadcaster_def startScheduler_def initial_def)

lemma burst_step1:
  assumes "thr a = \<lparr> wsBroadcaster = True, lastBroadcastTime = 0, broadcastPending = False,
         timers = [], sent = [] \<rparr>"
      and "fst ` set (PRICE_CACHE a) = set [''BTC'']"
  shows "thr (step [''BTC''] a (5000, Update Vest quote_new))
     = \<lparr> wsBroadcaster = True, lastBroadcastTime = 5000, broadcastPending = False,
         timers = [],
         sent = [(5000, getPriceCache [''BTC'']
                          (PRICE_CACHE (handleUpdate [''BTC''] Vest quote_new 5000 a)))] \<rparr>"
proof -
  have q: "q_symbol quote_new \<in> set [''BTC'']" by (simp add: quote_new_def)
  show ?thesis
    by (simp add: thr_update_new throttledBroadcast_def performBroadcast_def Let_def
          snapshot_after_update [OF assms(2) q] assms(1) BROADCAST_THROTTLE_def)
qed

lemma burst_step2:
  assumes "thr a = \<lparr> wsBroadcaster = True, lastBroadcastTime = 5000, broadcastPending = False,
         timers = [], sent = s \<rparr>"
  shows "thr (step [''BTC''] a (5400, Update Vest quote_new))
     = \<lparr> wsBroadcaster = True, lastBroadcastTime = 5000, broadcastPending = True,
         timers = [6000], sent = s \<rparr>"
  by (simp add: thr_update_new throttledBroadcast_def Let_def assms BROADCAST_THROTTLE_def)

lemma burst_throttle:
  "timers (thr (started [''BTC''] burst)) = [6000]
   \<and> wsBroadcaster (thr (started [''BTC''] burst))
   \<and> broadcastPending (thr (started [''BTC''] burst))
   \<and> lastBroadcastTime (thr (started [''BTC''] burst)) = 5000
   \<and> map fst (sent (thr (started [''BTC''] burst))) = [5000]"
proof -
  have e: "started [''BTC''] burst
          = step [''BTC'']
              (step [''BTC''] (step [''BTC''] (startScheduler [''BTC''] initial) (5000, Register))
                 (5000, Update Vest quote_new))
              (5400, Update Vest quote_new)"
    by (simp only: started_def run_def burst_def foldl.simps)
  have k0: "fst ` set (PRICE_CACHE (startScheduler [''BTC''] initial)) = set [''BTC'']"
    by (simp add: startScheduler_def keys_seed)
  note k1 = keys_step [OF k0, of "(5000, Register)"]
  note t = burst_step2 [OF burst_step1 [OF burst_step0 k1]]
  show ?thesis
    unfolding e t by simp
qed

lemma burst_prefix_throttle:
  "\<not> broadcastPending (thr (started [''BTC''] [(5000, Register)]))
   \<and> lastBroadcastTime (thr (started [''BTC''] [(5000, Register)])) = 0
   \<and> wsBroadcaster (thr (started [''BTC''] [(5000, Register)]))"
proof -
  have e: "started [''BTC''] [(5000, Register)]
             = step [''BTC''] (startScheduler [''BTC''] initial) (5000, Register)"
    by (simp only: started_def run_def foldl.simps)
  show ?thesis
    unfolding e burst_step0 by simp
qed

lemma started_burst_late:
  "started [''BTC''] burst_late
     = handleUpdate [''BTC''] Vest quote_new 6500 (started [''BTC''] burst)"
  by (simp add: started_def run_def burst_late_def)

text \<open>
  C7, as stated, fails in its leading-edge clause: \<^verbatim>\<open>throttledBroadcast\<close> returns at once
  while a trailing broadcast is pending. The last broadcast is at 5000 and the timer due
  at 6000 has not fired yet when a signal arrives at 6500, a full window after the last
  broadcast: nothing is broadcast by that signal.
\<close>

theorem signal_behind_pending_timer_is_not_broadcast:
  "schedule_ok [''BTC''] (startScheduler [''BTC''] initial) burst_late
   \<and> wsBroadcaster (thr (started [''BTC''] burst))
   \<and> map fst (sent (thr (started [''BTC''] burst))) = [5000]
   \<and> BROADCAST_THROTTLE \<le> 6500 - lastBroadcastTime (thr (started [''BTC''] burst))
   \<and> map fst (sent (thr (started [''BTC''] burst_late))) = [5000]"
proof -
  have 1: "schedule_ok [''BTC''] (startScheduler [''BTC''] initial) burst_late"
    by (simp add: burst_late_def burst_def)
  have 2: "BROADCAST_THROTTLE \<le> 6500 - lastBroadcastTime (thr (started [''BTC''] burst))"
    by (simp add: burst_throttle BROADCAST_THROTTLE_def)
  have "thr (started [''BTC''] burst_late) = thr (started [''BTC''] burst)"
    by (simp add: started_burst_late thr_update_new throttledBroadcast_def burst_throttle)
  then have 3: "map fst (sent (thr (started [''BTC''] burst_late))) = [5000]"
    by (simp add: burst_throttle)
  show ?thesis
    by (intro conjI 1 2 3) (simp_all add: burst_throttle)
qed

text \<open>
  C7, amended. Take any schedule of events after \<^verbatim>\<open>startScheduler\<close> in which a timer
  callback never runs before its due time, with a broadcaster registered, and a signal (an
  update of an allow-listed symbol) arriving at time \<open>now\<close>. Then: every window of one
  throttle period holds at most one broadcast; if no trailing broadcast is pending and
  the last broadcast is at least one period back, the signal broadcasts at once the
  snapshot of the cache it has just changed; if none is pending and the last broadcast is
  less than one period back, nothing is sent and exactly one timer is scheduled, for the
  remainder of the period; if a trailing broadcast is pending, the signal changes nothing
  of the throttle, whatever the time, and exactly one timer is outstanding, due one
  period after the last broadcast; when that timer fires, the snapshot of the cache as it
  is then is broadcast; and only signals change the cache, so that this is the cache as
  of the last signal.
\<close>

theorem broadcast_throttle_by_cases:
  assumes ok: "schedule_ok A (startScheduler A initial) evs"
      and sink: "wsBroadcaster (thr (started A evs))"
      and sym: "q_symbol d \<in> set A"
  shows "length (filter (\<lambda>t. w \<le> t \<and> t < w + BROADCAST_THROTTLE)
                  (map fst (sent (thr (started A evs))))) \<le> 1
       \<and> (\<not> broadcastPending (thr (started A evs))
            \<and> BROADCAST_THROTTLE \<le> now - lastBroadcastTime (thr (started A evs)) \<longrightarrow>
          sent (thr (handleUpdate A ex d now (started A evs)))
            = sent (thr (started A evs))
              @ [(now, getPriceCache A (PRICE_CACHE (handleUpdate A ex d now (started A evs))))]
          \<and> timers (thr (handleUpdate A ex d now (started A evs))) = [])
       \<and> (\<not> broadcastPending (thr (started A evs))
            \<and> now - lastBroadcastTime (thr (started A evs)) < BROADCAST_THROTTLE \<longrightarrow>
          sent (thr (handleUpdate A ex d now (started A evs))) = sent (thr (started A evs))
          \<and> timers (thr (handleUpdate A ex d now (started A evs)))
              = [now + (BROADCAST_THROTTLE - (now - lastBroadcastTime (thr (started A evs))))])
       \<and> (broadcastPending (thr (started A evs)) \<longrightarrow>
          thr (handleUpdate A ex d now (started A evs)) = thr (started A evs)
          \<and> timers (thr (started A evs))
              = [lastBroadcastTime (thr (started A evs)) + BROADCAST_THROTTLE])
       \<and> (timers (thr (started A evs)) \<noteq> [] \<longrightarrow>
          sent (thr (step A (started A evs) (now, TimerFires)))
            = sent (thr (started A evs)) @ [(now, getPriceCache A (PRICE_CACHE (started A evs)))]
          \<and> timers (thr (step A (started A evs) (now, TimerFires))) = [])
       \<and> ((\<forall>ex' d'. ev \<noteq> Update ex' d') \<longrightarrow>
          PRICE_CACHE (step A (started A evs) (now, ev)) = PRICE_CACHE (started A evs))"
proof -
  let ?a = "started A evs"
  have inv: "thr_inv (thr ?a)" by (rule inv_started [OF ok])
  from sym have ne: "A \<noteq> []" by auto
  have s1: "getPriceCache A (PRICE_CACHE (handleUpdate A ex d now ?a)) \<noteq> []"
    by (rule snapshot_after_update [OF keys_started sym])
  have s2: "getPriceCache A (PRICE_CACHE ?a) \<noteq> []"
    by (rule snapshot_nonempty [OF keys_started ne])
  have w: "length (filter (\<lambda>t. w \<le> t \<and> t < w + BROADCAST_THROTTLE) (map fst (sent (thr ?a)))) \<le> 1"
    using inv by (intro spaced_window) (simp add: thr_inv_def)
  have lead: "\<not> broadcastPending (thr ?a)
            \<and> BROADCAST_THROTTLE \<le> now - lastBroadcastTime (thr ?a) \<longrightarrow>
          sent (thr (handleUpdate A ex d now ?a))
            = sent (thr ?a) @ [(now, getPriceCache A (PRICE_CACHE (handleUpdate A ex d now ?a)))]
          \<and> timers (thr (handleUpdate A ex d now ?a)) = []"
    using inv sink sym s1
    by (simp add: thr_handleUpdate throttledBroadcast_def performBroadcast_def Let_def
          thr_inv_def)
  have trail: "\<not> broadcastPending (thr ?a)
            \<and> now - lastBroadcastTime (thr ?a) < BROADCAST_THROTTLE \<longrightarrow>
          sent (thr (handleUpdate A ex d now ?a)) = sent (thr ?a)
          \<and> timers (thr (handleUpdate A ex d now ?a))
              = [now + (BROADCAST_THROTTLE - (now - lastBroadcastTime (thr ?a)))]"
    using inv sym
    by (simp add: thr_handleUpdate throttledBroadcast_def Let_def thr_inv_def)
  have pend: "broadcastPending (thr ?a) \<longrightarrow>
          thr (handleUpdate A ex d now ?a) = thr ?a
          \<and> timers (thr ?a) = [lastBroadcastTime (thr ?a) + BROADCAST_THROTTLE]"
    using inv sym
    by (simp add: thr_handleUpdate throttledBroadcast_def thr_inv_def)
  have fire: "timers (thr ?a) \<noteq> [] \<longrightarrow>
          sent (thr (step A ?a (now, TimerFires)))
            = sent (thr ?a) @ [(now, getPriceCache A (PRICE_CACHE ?a))]
          \<and> timers (thr (step A ?a (now, TimerFires))) = []"
    using inv sink s2
    by (auto simp: timer_callback_def performBroadcast_def Let_def thr_inv_def
          split: list.splits if_splits)
  have other: "(\<forall>ex' d'. ev \<noteq> Update ex' d') \<longrightarrow>
          PRICE_CACHE (step A ?a (now, ev)) = PRICE_CACHE ?a"
    by (simp add: PRICE_CACHE_step_other)
  from w lead trail pend fire other show ?thesis by (intro conjI)
qed

theorem broadcast_throttle_by_cases_witness:
  "schedule_ok [''BTC''] (startScheduler [''BTC''] initial) burst
   \<and> wsBroadcaster (thr (started [''BTC''] burst))
   \<and> q_symbol quote_new \<in> set [''BTC'']
   \<and> broadcastPending (thr (started [''BTC''] burst))
   \<and> thr (handleUpdate [''BTC''] Vest quote_new 5700 (started [''BTC''] burst))
       = thr (started [''BTC''] burst)
   \<and> timers (thr (started [''BTC''] burst)) \<noteq> []
   \<and> timers (thr (step [''BTC''] (started [''BTC''] burst) (6000, TimerFires))) = []
   \<and> schedule_ok [''BTC''] (startScheduler [''BTC''] initial) [(5000, Register)]
   \<and> wsBroadcaster (thr (started [''BTC''] [(5000, Register)]))
   \<and> \<not> broadcastPending (thr (started [''BTC''] [(5000, Register)]))
   \<and> BROADCAST_THROTTLE \<le> 5000 - lastBroadcastTime (thr (started [''BTC''] [(5000, Register)]))
   \<and> timers (thr (handleUpdate [''BTC''] Vest quote_new 5000
                    (started [''BTC''] [(5000, Register)]))) = []"
proof -
  have h1: "schedule_ok [''BTC''] (startScheduler [''BTC''] initial) burst"
    by (simp add: burst_def)
  have h2: "wsBroadcaster (thr (started [''BTC''] burst))"
    by (simp add: burst_throttle)
  have h3: "q_symbol quote_new \<in> set [''BTC'']"
    by (simp add: quote_new_def)
  have h4: "broadcastPending (thr (started [''BTC''] burst))"
    by (simp add: burst_throttle)
  have h5: "timers (thr (started [''BTC''] burst)) \<noteq> []"
    by (simp add: burst_throttle)
  note t = broadcast_throttle_by_cases [OF h1 h2 h3, of 5000 5700 Vest TimerFires]
  note c = t [THEN conjunct2, THEN conjunct2, THEN conjunct2, THEN conjunct1, rule_format,
              OF h4, THEN conjunct1]
  note u = broadcast_throttle_by_cases [OF h1 h2 h3, of 5000 6000 Vest TimerFires]
  note f = u [THEN conjunct2, THEN conjunct2, THEN conjunct2, THEN conjunct2, THEN conjunct1,
              rule_format, OF h5, THEN conjunct2]
  have g1: "schedule_ok [''BTC''] (startScheduler [''BTC''] initial) [(5000, Register)]"
    by simp
  have g2: "wsBroadcaster (thr (started [''BTC''] [(5000, Register)]))"
    by (simp add: burst_prefix_throttle)
  have g4: "\<not> broadcastPending (thr (started [''BTC''] [(5000, Register)]))"
    by (simp add: burst_prefix_throttle)
  have g5: "BROADCAST_THROTTLE
              \<le> 5000 - lastBroadcastTime (thr (started [''BTC''] [(5000, Register)]))"
    by (simp add: burst_prefix_throttle BROADCAST_THROTTLE_def)
  note v = broadcast_throttle_by_cases [OF g1 g2 h3, of 5000 5000 Vest TimerFires]
  note l = v [THEN conjunct2, THEN conjunct1, rule_format, OF conjI [OF g4 g5], THEN conjunct2]
  show ?thesis
    by (intro conjI h1 h2 h3 h4 c h5 f g1 g2 g4 g5 l)
qed

section \<open>Properties of the REST adapters\<close>

lemma forEach_push_skip:
  "f m = Inr None \<Longrightarrow> forEach_push f (ms1 @ m # ms2) rs = forEach_push f (ms1 @ ms2) rs"
  by (induction ms1 arbitrary: rs) (auto split: sum.splits option.splits)

lemma ok_body_status:
  "truthy (ok_body ms)
   \<and> then_do (get_member (ok_body ms) ''status'') status_ok = Inr True
   \<and> get_member (ok_body ms) ''data'' = Inr (JArr ms)"
  by (simp add: ok_body_def toLowerCase_def)

lemma Extended_try_ok_body:
  "Extended_try A pf (Inr (ok_body ms)) = forEach_push (extended_market A pf) ms []"
  by (simp add: Extended_try_def ok_body_status)

lemma Extended_try_silent:
  assumes "\<not> truthy data
           \<or> then_do (get_member data ''status'') status_ok = Inr False
           \<or> (then_do (get_member data ''status'') status_ok = Inr True
               \<and> (\<forall>markets. get_member data ''data'' \<noteq> Inr (JArr markets)))"
  shows "Extended_try A pf (Inr data) = ([], None)"
proof (cases "truthy data")
  case False
  then show ?thesis by (simp add: Extended_try_def)
next
  case True
  show ?thesis
  proof (cases "then_do (get_member data ''status'') status_ok = Inr False")
    case yes: True
    with True show ?thesis by (simp add: Extended_try_def)
  next
    case no: False
    with True assms
    have st: "then_do (get_member data ''status'') status_ok = Inr True"
      and na: "\<forall>markets. get_member data ''data'' \<noteq> Inr (JArr markets)" by simp_all
    show ?thesis
    proof (cases "get_member data ''data''")
      case (Inl e)
      with True st show ?thesis by (simp add: Extended_try_def)
    next
      case (Inr v)
      with na have "\<forall>markets. v \<noteq> JArr markets" by simp
      with Inr True st show ?thesis
        by (cases v) (simp_all add: Extended_try_def)
    qed
  qed
qed

text \<open>
  C8, as stated, fails. A response whose body is not the expected object (here an HTML
  page) makes \<^verbatim>\<open>ExtendedService.fetchMarkets\<close> return the empty list without any log
  entry. And in \<^verbatim>\<open>LighterService.fetchMarkets\<close> an active perp record without a
  \<^verbatim>\<open>symbol\<close> raises inside the loop: the batch that yields one quote without that
  record yields none with it.
\<close>

theorem silent_or_aborted_fetch:
  "Extended_fetchMarkets [''BTC''] parse_sample (Inr (JStr ''<html>'')) = Inr ([], [])
   \<and> Lighter_fetchMarkets any_symbol parse_sample
       (Inr (JObj [(''order_book_details'', JArr [lighter_record])]))
     = Inr ([\<lparr> md_symbol = JStr ''BTC'', md_bid = 100, md_ask = 201 / 2 \<rparr>],
            [LogDebug ''Returning pairs with real bid/ask'' 1])
   \<and> Lighter_fetchMarkets any_symbol parse_sample
       (Inr (JObj [(''order_book_details'',
                    JArr [lighter_record, lighter_record_without_symbol])]))
     = Inr ([], [LogError ''Error fetching markets'' TypeError])"
  by (simp add: Extended_fetchMarkets_def Extended_try_def Lighter_fetchMarkets_def
        Lighter_try_def lighter_market_def lighter_record_def
        lighter_record_without_symbol_def any_symbol_def parse_sample_def js_or_def
        positive_def)

text \<open>
  C8, amended. The promise that \<^verbatim>\<open>fetchMarkets\<close> of the Extended and of the Lighter
  adapter returns is never rejected. A failed request yields the empty list and one error
  entry in the log; an exception raised while the response is processed is caught and
  yields one error entry, with the list pushed so far in the Extended adapter and with
  the empty list in the Lighter adapter. In the Extended adapter a body that is absent,
  or whose status is absent or a string other than ok, or whose status is ok and whose
  data is not an array, yields the empty list and no log entry; and a record that the
  checks of the loop reject, such as one without a name, is skipped: the result and the
  log are those of the batch without that record.
\<close>

theorem fetch_failures_are_contained:
  "\<not> isl (Extended_fetchMarkets A pf response)
   \<and> \<not> isl (Lighter_fetchMarkets isCrypto parsePrice response)
   \<and> Extended_fetchMarkets A pf (Inl message)
       = Inr ([], [LogError ''REST fetch failed'' (RequestError message)])
   \<and> Lighter_fetchMarkets isCrypto parsePrice (Inl message)
       = Inr ([], [LogError ''Error fetching markets'' (RequestError message)])
   \<and> (Extended_try A pf response = (results, Some e) \<longrightarrow>
        Extended_fetchMarkets A pf response
          = Inr (results, [LogError ''REST fetch failed'' e]))
   \<and> (Lighter_try isCrypto parsePrice response = Inl e \<longrightarrow>
        Lighter_fetchMarkets isCrypto parsePrice response
          = Inr ([], [LogError ''Error fetching markets'' e]))
   \<and> (\<not> truthy data
        \<or> then_do (get_member data ''status'') status_ok = Inr False
        \<or> (then_do (get_member data ''status'') status_ok = Inr True
            \<and> (\<forall>markets. get_member data ''data'' \<noteq> Inr (JArr markets))) \<longrightarrow>
        Extended_fetchMarkets A pf (Inr data) = Inr ([], []))
   \<and> (extended_market A pf m = Inr None \<longrightarrow>
        Extended_fetchMarkets A pf (Inr (ok_body (before @ m # after)))
          = Extended_fetchMarkets A pf (Inr (ok_body (before @ after))))
   \<and> (map_of (rev kvs) ''name'' = None \<longrightarrow> extended_market A pf (JObj kvs) = Inr None)"
proof -
  have 1: "\<not> isl (Extended_fetchMarkets A pf response)"
    by (simp add: Extended_fetchMarkets_def split: prod.splits option.splits)
  have 2: "\<not> isl (Lighter_fetchMarkets isCrypto parsePrice response)"
    by (simp add: Lighter_fetchMarkets_def split: sum.splits)
  have 3: "Extended_fetchMarkets A pf (Inl message)
       = Inr ([], [LogError ''REST fetch failed'' (RequestError message)])"
    by (simp add: Extended_fetchMarkets_def Extended_try_def)
  have 4: "Lighter_fetchMarkets isCrypto parsePrice (Inl message)
       = Inr ([], [LogError ''Error fetching markets'' (RequestError message)])"
    by (simp add: Lighter_fetchMarkets_def Lighter_try_def)
  have 5: "Extended_try A pf response = (results, Some e) \<longrightarrow>
        Extended_fetchMarkets A pf response
          = Inr (results, [LogError ''REST fetch failed'' e])"
    by (simp add: Extended_fetchMarkets_def)
  have 6: "Lighter_try isCrypto parsePrice response = Inl e \<longrightarrow>
        Lighter_fetchMarkets isCrypto parsePrice response
          = Inr ([], [LogError ''Error fetching markets'' e])"
    by (simp add: Lighter_fetchMarkets_def)
  have 7: "\<not> truthy data
        \<or> then_do (get_member data ''status'') status_ok = Inr False
        \<or> (then_do (get_member data ''status'') status_ok = Inr True
            \<and> (\<forall>markets. get_member data ''data'' \<noteq> Inr (JArr markets))) \<longrightarrow>
        Extended_fetchMarkets A pf (Inr data) = Inr ([], [])"
    by (simp add: Extended_fetchMarkets_def Extended_try_silent)
  have 8: "extended_market A pf m = Inr None \<longrightarrow>
        Extended_fetchMarkets A pf (Inr (ok_body (before @ m # after)))
          = Extended_fetchMarkets A pf (Inr (ok_body (before @ after)))"
    by (simp add: Extended_fetchMarkets_def Extended_try_ok_body forEach_push_skip)
  have 9: "map_of (rev kvs) ''name'' = None \<longrightarrow> extended_market A pf (JObj kvs) = Inr None"
    by (simp add: extended_market_def)
  show ?thesis
    by (intro conjI 1 2 3 4 5 6 7 8 9)
qed

lemma sample_batch:
  "Extended_try [''BTC''] parse_sample (Inr (ok_body [extended_record, JNull]))
     = ([\<lparr> md_symbol = JStr ''BTC'', md_bid = 100, md_ask = 201 / 2 \<rparr>], Some TypeError)
   \<and> Extended_fetchMarkets [''BTC''] parse_sample
        (Inr (ok_body ([extended_record] @ [extended_record])))
      = Inr ([\<lparr> md_symbol = JStr ''BTC'', md_bid = 100, md_ask = 201 / 2 \<rparr>,
              \<lparr> md_symbol = JStr ''BTC'', md_bid = 100, md_ask = 201 / 2 \<rparr>], [])"
  by (simp add: Extended_fetchMarkets_def Extended_try_ok_body extended_market_def
        extended_record_def parse_sample_def js_or_def positive_def)

theorem fetch_failures_are_contained_witness:
  "Extended_try [''BTC''] parse_sample (Inr (ok_body [extended_record, JNull]))
     = ([\<lparr> md_symbol = JStr ''BTC'', md_bid = 100, md_ask = 201 / 2 \<rparr>], Some TypeError)
   \<and> Extended_fetchMarkets [''BTC''] parse_sample (Inr (ok_body [extended_record, JNull]))
       = Inr ([\<lparr> md_symbol = JStr ''BTC'', md_bid = 100, md_ask = 201 / 2 \<rparr>],
              [LogError ''REST fetch failed'' TypeError])
   \<and> Lighter_try any_symbol parse_sample (Inr JNull) = Inl TypeError
   \<and> Lighter_fetchMarkets any_symbol parse_sample (Inr JNull)
       = Inr ([], [LogError ''Error fetching markets'' TypeError])
   \<and> then_do (get_member (JObj [(''status'', JStr ''ok''), (''data'', JStr ''none'')])
                ''status'') status_ok = Inr True
   \<and> Extended_fetchMarkets [''BTC''] parse_sample
        (Inr (JObj [(''status'', JStr ''ok''), (''data'', JStr ''none'')])) = Inr ([], [])
   \<and> extended_market [''BTC''] parse_sample (JObj [(''active'', JBool True)]) = Inr None
   \<and> map_of (rev [(''active'', JBool True)]) ''name'' = None
   \<and> Extended_fetchMarkets [''BTC''] parse_sample
        (Inr (ok_body ([extended_record] @ JObj [(''active'', JBool True)] # [extended_record])))
      = Inr ([\<lparr> md_symbol = JStr ''BTC'', md_bid = 100, md_ask = 201 / 2 \<rparr>,
              \<lparr> md_symbol = JStr ''BTC'', md_bid = 100, md_ask = 201 / 2 \<rparr>], [])"
proof -
  note e1 = sample_batch [THEN conjunct1]
  note e2 = sample_batch [THEN conjunct2]
  have l1: "Lighter_try any_symbol parse_sample (Inr JNull) = Inl TypeError"
    by (simp add: Lighter_try_def)
  have d1: "then_do (get_member (JObj [(''status'', JStr ''ok''), (''data'', JStr ''none'')])
                ''status'') status_ok = Inr True"
    by (simp add: toLowerCase_def)
  have d2: "\<forall>markets. get_member (JObj [(''status'', JStr ''ok''), (''data'', JStr ''none'')])
                          ''data'' \<noteq> Inr (JArr markets)"
    by simp
  have n: "map_of (rev [(''active'', JBool True)]) ''name'' = None" by simp
  note t1 = fetch_failures_are_contained
              [where A = "[''BTC'']" and pf = parse_sample
                 and response = "Inr (ok_body [extended_record, JNull])"
                 and results = "[\<lparr> md_symbol = JStr ''BTC'', md_bid = 100, md_ask = 201 / 2 \<rparr>]"
                 and e = TypeError and isCrypto = any_symbol and parsePrice = parse_sample
                 and data = "JObj [(''status'', JStr ''ok''), (''data'', JStr ''none'')]"
                 and m = "JObj [(''active'', JBool True)]" and before = "[extended_record]"
                 and after = "[extended_record]" and kvs = "[(''active'', JBool True)]"]
  note t2 = fetch_failures_are_contained
              [where isCrypto = any_symbol and parsePrice = parse_sample
                 and response = "Inr JNull" and e = TypeError]
  have c1: "Extended_fetchMarkets [''BTC''] parse_sample
              (Inr (ok_body [extended_record, JNull]))
       = Inr ([\<lparr> md_symbol = JStr ''BTC'', md_bid = 100, md_ask = 201 / 2 \<rparr>],
              [LogError ''REST fetch failed'' TypeError])"
    using t1 e1 by blast
  have c2: "Lighter_fetchMarkets any_symbol parse_sample (Inr JNull)
       = Inr ([], [LogError ''Error fetching markets'' TypeError])"
    using t2 l1 by blast
  have c3: "Extended_fetchMarkets [''BTC''] parse_sample
        (Inr (JObj [(''status'', JStr ''ok''), (''data'', JStr ''none'')])) = Inr ([], [])"
    using t1 d1 d2 by blast
  have c4: "extended_market [''BTC''] parse_sample (JObj [(''active'', JBool True)]) = Inr None"
    using t1 n by blast
  have c5: "Extended_fetchMarkets [''BTC''] parse_sample
        (Inr (ok_body ([extended_record] @ JObj [(''active'', JBool True)] # [extended_record])))
      = Inr ([\<lparr> md_symbol = JStr ''BTC'', md_bid = 100, md_ask = 201 / 2 \<rparr>,
              \<lparr> md_symbol = JStr ''BTC'', md_bid = 100, md_ask = 201 / 2 \<rparr>], [])"
    using t1 c4 e2 by simp
  show ?thesis
    by (intro conjI e1 c1 l1 c2 d1 c3 c4 n c5)
qed

end
